theory Spec2Isabelle
  imports
    Complex_Main
    "HOL-Library.Char_ord"
    "HOL-Library.List_Lexorder"
    "HOL-Library.Product_Lexorder"
begin

section \<open>Order analysis pipeline (app2.py, sales_06.py)\<close>

text \<open>
  The two scripts load an orders sheet (\<open>Working\<close>) and a product master sheet (\<open>pm\<close>),
  clean the identifier column, look up brand manager, brand, vendor SKU and cost by
  identifier, filter the orders and build four pivot tables. The development below
  follows the scripts step by step. A data frame is a list of rows, a row is a record of
  its columns, and a blank cell (pandas' NaN) of a text or numeric column is \<open>None\<close>.
  Numbers are exact rationals: rounding of binary floating point is not modelled.
  Identifier, product name, status, brand, brand manager and vendor SKU are text columns,
  quantity is a numeric column; price and cost cells may hold a number or text.
  The tables are functions of the two sheets, and a run shows them after the key
  metrics have been computed. Display and Excel export are not part of the development.
\<close>

subsection \<open>Python strings\<close>

text \<open>
  A character is a code point below 256. \<open>str.strip()\<close> removes the characters for which
  \<open>str.isspace()\<close> holds at both ends: below 256 these are the ten of the ASCII range,
  the next-line character U+0085 and the no-break space U+00A0.
\<close>

definition is_space :: "char \<Rightarrow> bool" where
  "is_space c \<longleftrightarrow>
     c \<in> set [CHR 0x09, CHR 0x0A, CHR 0x0B, CHR 0x0C, CHR 0x0D,
               CHR 0x1C, CHR 0x1D, CHR 0x1E, CHR 0x1F, CHR 0x20,
               CHR 0x85, CHR 0xA0]"

definition strip :: "string \<Rightarrow> string" where
  "strip s = rev (dropWhile is_space (rev (dropWhile is_space s)))"

text \<open>
  \<open>str.lower()\<close>: the letters A to Z, and the upper-case letters U+00C0 to U+00DE (the
  multiplication sign U+00D7 is no letter), become the letter 32 code points above.
\<close>

definition upper_letters :: "char list" where
  "upper_letters =
     ''ABCDEFGHIJKLMNOPQRSTUVWXYZ'' @
     [CHR 0xC0, CHR 0xC1, CHR 0xC2, CHR 0xC3, CHR 0xC4, CHR 0xC5, CHR 0xC6, CHR 0xC7,
      CHR 0xC8, CHR 0xC9, CHR 0xCA, CHR 0xCB, CHR 0xCC, CHR 0xCD, CHR 0xCE, CHR 0xCF,
      CHR 0xD0, CHR 0xD1, CHR 0xD2, CHR 0xD3, CHR 0xD4, CHR 0xD5, CHR 0xD6,
      CHR 0xD8, CHR 0xD9, CHR 0xDA, CHR 0xDB, CHR 0xDC, CHR 0xDD, CHR 0xDE]"

definition lower_letters :: "char list" where
  "lower_letters =
     ''abcdefghijklmnopqrstuvwxyz'' @
     [CHR 0xE0, CHR 0xE1, CHR 0xE2, CHR 0xE3, CHR 0xE4, CHR 0xE5, CHR 0xE6, CHR 0xE7,
      CHR 0xE8, CHR 0xE9, CHR 0xEA, CHR 0xEB, CHR 0xEC, CHR 0xED, CHR 0xEE, CHR 0xEF,
      CHR 0xF0, CHR 0xF1, CHR 0xF2, CHR 0xF3, CHR 0xF4, CHR 0xF5, CHR 0xF6,
      CHR 0xF8, CHR 0xF9, CHR 0xFA, CHR 0xFB, CHR 0xFC, CHR 0xFD, CHR 0xFE]"

definition lower_char :: "char \<Rightarrow> char" where
  "lower_char c =
     (case map_of (zip upper_letters lower_letters) c of
        Some d \<Rightarrow> d
      | None \<Rightarrow> c)"

definition lower :: "string \<Rightarrow> string" where
  "lower s = map lower_char s"

fun starts_with :: "string \<Rightarrow> string \<Rightarrow> bool" where
  "starts_with [] s = True"
| "starts_with (p # ps) [] = False"
| "starts_with (p # ps) (c # cs) = (p = c \<and> starts_with ps cs)"

text \<open>\<open>contains sub s\<close> is Python's \<open>sub in s\<close>.\<close>

fun contains :: "string \<Rightarrow> string \<Rightarrow> bool" where
  "contains sub [] = (sub = [])"
| "contains sub (c # cs) = (starts_with sub (c # cs) \<or> contains sub cs)"

text \<open>
  \<open>astype(str)\<close> on a text column: a blank cell becomes the text \<open>nan\<close>. This is pandas
  before version 3, which step 3 of the scripts relies on (it removes the identifiers
  that read \<open>nan\<close>).
\<close>

definition astype_str :: "string option \<Rightarrow> string" where
  "astype_str v = (case v of None \<Rightarrow> ''nan'' | Some s \<Rightarrow> s)"

text \<open>Step 3, for one identifier cell: \<open>.astype(str).str.strip()\<close>.\<close>

definition normalize_id :: "string option \<Rightarrow> string" where
  "normalize_id v = strip (astype_str v)"

subsection \<open>Cells and numeric coercion\<close>

text \<open>
  A cell of a column that may hold numbers or text (\<open>item-price\<close>, the cost column of the
  product master): blank, a number, or text.
\<close>

datatype cell = NaN | Num rat | Str string

text \<open>
  \<open>pd.to_numeric(..., errors='coerce')\<close>: numbers and blanks stay, text is read as a
  number where pandas can read it and becomes NaN otherwise. The reader of numeric text
  belongs to pandas; it is the parameter \<open>parse\<close>.
\<close>

definition to_numeric :: "(string \<Rightarrow> rat option) \<Rightarrow> cell \<Rightarrow> cell" where
  "to_numeric parse c =
     (case c of
        NaN \<Rightarrow> NaN
      | Num q \<Rightarrow> Num q
      | Str s \<Rightarrow> (case parse s of Some q \<Rightarrow> Num q | None \<Rightarrow> NaN))"

text \<open>\<open>.fillna(0)\<close> on a coerced column, and the value a cell adds to a \<open>sum\<close> (NaN is skipped).\<close>

definition fillna0 :: "cell \<Rightarrow> rat" where
  "fillna0 c = (case c of Num q \<Rightarrow> q | _ \<Rightarrow> 0)"

definition nan0 :: "rat option \<Rightarrow> rat" where
  "nan0 v = (case v of Some q \<Rightarrow> q | None \<Rightarrow> 0)"

text \<open>
  A reader of unsigned digit strings, which every numeric reader agrees with on such
  strings and on text without any digit; the examples run with it.
\<close>

definition digit_value :: "char \<Rightarrow> nat option" where
  "digit_value c = map_of (zip ''0123456789'' [0, 1, 2, 3, 4, 5, 6, 7, 8, 9]) c"

fun read_digits :: "nat \<Rightarrow> string \<Rightarrow> nat option" where
  "read_digits acc [] = Some acc"
| "read_digits acc (c # cs) =
     (case digit_value c of None \<Rightarrow> None | Some d \<Rightarrow> read_digits (10 * acc + d) cs)"

definition read_decimal :: "string \<Rightarrow> rat option" where
  "read_decimal s = (if s = [] then None else map_option of_nat (read_digits 0 s))"

subsection \<open>The orders sheet\<close>

text \<open>A time stamp is a day number and the second of that day.\<close>

type_synonym timestamp = "int \<times> nat"

text \<open>A row of the orders sheet as loaded.\<close>

record order_row =
  o_asin :: "string option"
  o_quantity :: "rat option"
  o_item_price :: cell
  o_product_name :: "string option"
  o_item_status :: "string option"
  o_purchase_date :: "timestamp option"

text \<open>
  A row of \<open>Working\<close> after steps 1 to 3: \<open>date\<close> is the date part of the purchase time
  stamp, \<open>asin\<close> is the stripped text of the identifier cell. No row is removed.
\<close>

record working =
  asin :: string
  quantity :: "rat option"
  item_price :: cell
  product_name :: "string option"
  item_status :: "string option"
  purchase_date :: "timestamp option"
  date :: "int option"

definition clean_order :: "order_row \<Rightarrow> working" where
  "clean_order r =
     \<lparr> asin = normalize_id (o_asin r),
       quantity = o_quantity r,
       item_price = o_item_price r,
       product_name = o_product_name r,
       item_status = o_item_status r,
       purchase_date = o_purchase_date r,
       date = map_option fst (o_purchase_date r) \<rparr>"

subsection \<open>The product master\<close>

text \<open>A row of the product master, read through the resolved columns.\<close>

record pm_row =
  pm_asin :: "string option"
  pm_brand_manager :: "string option"
  pm_brand :: "string option"
  pm_vendor_sku :: "string option"
  pm_cp :: cell

text \<open>
  Step 3 on \<open>pm\<close>: the identifier becomes stripped text, and rows whose identifier is empty
  or the text \<open>nan\<close> are removed. A cleaned row is kept with its identifier as index.
\<close>

definition clean_pm :: "pm_row list \<Rightarrow> (string \<times> pm_row) list" where
  "clean_pm pm =
     filter (\<lambda>(k, r). k \<noteq> [] \<and> k \<noteq> ''nan'')
       (map (\<lambda>r. (normalize_id (pm_asin r), r)) pm)"

text \<open>\<open>drop_duplicates(subset="asin", keep="first")\<close>, with the identifiers seen so far.\<close>

fun keep_first :: "string list \<Rightarrow> (string \<times> 'a) list \<Rightarrow> (string \<times> 'a) list" where
  "keep_first seen [] = []"
| "keep_first seen ((k, r) # rs) =
     (if k \<in> set seen then keep_first seen rs else (k, r) # keep_first (k # seen) rs)"

definition pm_unique :: "pm_row list \<Rightarrow> (string \<times> pm_row) list" where
  "pm_unique pm = keep_first [] (clean_pm pm)"

text \<open>\<open>pm_unique.set_index("asin")[col]\<close>: the column \<open>col\<close> indexed by identifier.\<close>

definition indexed :: "(pm_row \<Rightarrow> 'v) \<Rightarrow> (string \<times> pm_row) list \<Rightarrow> (string \<times> 'v) list" where
  "indexed col rows = map (\<lambda>(k, r). (k, col r)) rows"

definition bm_map :: "pm_row list \<Rightarrow> (string \<times> string option) list" where
  "bm_map pm = indexed pm_brand_manager (pm_unique pm)"

definition brand_map :: "pm_row list \<Rightarrow> (string \<times> string option) list" where
  "brand_map pm = indexed pm_brand (pm_unique pm)"

definition vendor_map :: "pm_row list \<Rightarrow> (string \<times> string option) list" where
  "vendor_map pm = indexed pm_vendor_sku (pm_unique pm)"

definition cp_map :: "pm_row list \<Rightarrow> (string \<times> cell) list" where
  "cp_map pm = indexed pm_cp (pm_unique pm)"

text \<open>\<open>Working["asin"].map(m)\<close> for one identifier: the indexed value, blank when absent.\<close>

definition map_text :: "(string \<times> string option) list \<Rightarrow> string \<Rightarrow> string option" where
  "map_text m k = (case map_of m k of None \<Rightarrow> None | Some v \<Rightarrow> v)"

definition map_cell :: "(string \<times> cell) list \<Rightarrow> string \<Rightarrow> cell" where
  "map_cell m k = (case map_of m k of None \<Rightarrow> NaN | Some v \<Rightarrow> v)"

subsection \<open>Enrichment (steps 4 to 6 of app2.py)\<close>

record enriched = working +
  brand_manager :: "string option"
  brand :: "string option"
  vendor_sku :: "string option"
  cost :: rat

text \<open>
  \<open>Vendor SKU\<close> is mapped and then converted with \<open>astype(str)\<close>, so it always holds text;
  \<open>cost\<close> is mapped, coerced and filled with 0.
\<close>

definition enrich :: "(string \<Rightarrow> rat option) \<Rightarrow> pm_row list \<Rightarrow> working \<Rightarrow> enriched" where
  "enrich parse pm w =
     \<lparr> asin = asin w,
       quantity = quantity w,
       item_price = item_price w,
       product_name = product_name w,
       item_status = item_status w,
       purchase_date = purchase_date w,
       date = date w,
       brand_manager = map_text (bm_map pm) (asin w),
       brand = map_text (brand_map pm) (asin w),
       vendor_sku = Some (astype_str (map_text (vendor_map pm) (asin w))),
       cost = fillna0 (to_numeric parse (map_cell (cp_map pm) (asin w))) \<rparr>"

definition enrich_orders ::
  "(string \<Rightarrow> rat option) \<Rightarrow> pm_row list \<Rightarrow> order_row list \<Rightarrow> enriched list" where
  "enrich_orders parse pm orders = map (\<lambda>r. enrich parse pm (clean_order r)) orders"

subsection \<open>Filtering (step 7 of app2.py, step 6 of sales_06.py)\<close>

text \<open>
  The five statements of the step, in the order of the script. In pandas a blank is
  different from every value, so \<open>!= 0\<close> and \<open>!= 'Cancelled'\<close> keep blank cells.
\<close>

definition name_ok :: "string option \<Rightarrow> bool" where
  "name_ok n \<longleftrightarrow>
     n \<noteq> None \<and> strip (astype_str n) \<noteq> ''-'' \<and> strip (astype_str n) \<noteq> []"

definition filter_step ::
  "(string \<Rightarrow> rat option) \<Rightarrow> ('a working_scheme) list \<Rightarrow> ('a working_scheme) list" where
  "filter_step parse W =
     (let W1 = filter (\<lambda>r. quantity r \<noteq> Some 0) W;
          W2 = map (\<lambda>r. r\<lparr>item_price := to_numeric parse (item_price r)\<rparr>) W1;
          W3 = filter (\<lambda>r. item_price r \<noteq> Num 0) W2;
          W4 = filter (\<lambda>r. name_ok (product_name r)) W3;
          W5 = filter (\<lambda>r. item_status r \<noteq> Some ''Cancelled'') W4
      in W5)"

text \<open>The whole of the data processing: the table written as \<open>Processed Orders\<close>.\<close>

definition processed_orders ::
  "(string \<Rightarrow> rat option) \<Rightarrow> pm_row list \<Rightarrow> order_row list \<Rightarrow> enriched list" where
  "processed_orders parse pm orders = filter_step parse (enrich_orders parse pm orders)"

subsection \<open>Resolving the columns of the product master (steps 2 to 6)\<close>

text \<open>
  The exceptions of a run: \<open>IndexError msg\<close> from a Python list, \<open>IndexOutOfBounds i n\<close>
  for the \<open>IndexError\<close> of position \<open>i\<close> in a pandas index of \<open>n\<close> labels, \<open>KeyError c\<close>
  for a column \<open>c\<close> that is not there, and \<open>ValueError\<close> for \<open>idxmax\<close> of an empty
  series. All of them reach the one handler around the run, which shows the text of the
  exception and ends the run: nothing that comes later in the script is shown.
\<close>

datatype error = IndexError string | IndexOutOfBounds nat nat | KeyError string | ValueError

definition and_then :: "error + 'a \<Rightarrow> ('a \<Rightarrow> error + 'b) \<Rightarrow> error + 'b" where
  "and_then x f = (case x of Inl e \<Rightarrow> Inl e | Inr v \<Rightarrow> f v)"

text \<open>Step 2: \<open>pm.columns.str.strip().str.lower()\<close>.\<close>

definition clean_columns :: "string list \<Rightarrow> string list" where
  "clean_columns cols = map (\<lambda>c. lower (strip c)) cols"

text \<open>\<open>xs[0]\<close> on a Python list and \<open>pm.columns[i]\<close> on a pandas index.\<close>

definition first_of :: "'a list \<Rightarrow> error + 'a" where
  "first_of xs = (case xs of [] \<Rightarrow> Inl (IndexError ''list index out of range'') | x # _ \<Rightarrow> Inr x)"

definition column_at :: "string list \<Rightarrow> nat \<Rightarrow> error + string" where
  "column_at cols i =
     (if i < length cols then Inr (cols ! i) else Inl (IndexOutOfBounds i (length cols)))"

definition bm_col :: "string list \<Rightarrow> error + string" where
  "bm_col cols = first_of (filter (\<lambda>c. contains ''brand'' c \<and> contains ''manager'' c) cols)"

definition brand_col :: "string list \<Rightarrow> error + string" where
  "brand_col cols = first_of (filter (\<lambda>c. c = ''brand'') cols)"

definition vendor_candidates :: "string list \<Rightarrow> string list" where
  "vendor_candidates cols =
     filter (\<lambda>c. c \<in> set [''vendor sku'', ''vendor_sku'', ''vendor sku code'', ''vendor_sku_code''])
       cols"

definition vendor_col :: "string list \<Rightarrow> error + string" where
  "vendor_col cols =
     (if vendor_candidates cols \<noteq> [] then first_of (vendor_candidates cols)
      else column_at cols 3)"

definition cp_candidates :: "string list \<Rightarrow> string list" where
  "cp_candidates cols = filter (\<lambda>c. c \<in> set [''cp'', ''cost price'', ''cost'']) cols"

definition cp_col :: "string list \<Rightarrow> error + string" where
  "cp_col cols =
     (if cp_candidates cols \<noteq> [] then first_of (cp_candidates cols) else column_at cols 7)"

record resolved =
  r_bm :: string
  r_brand :: string
  r_vendor :: string
  r_cp :: string

text \<open>
  \<open>pm_unique.set_index("asin")[c]\<close>: \<open>set_index\<close> moves the identifier column into the
  index, so the columns left are the others.
\<close>

definition indexed_column :: "string list \<Rightarrow> string \<Rightarrow> error + string" where
  "indexed_column cols c = (if c \<in> set cols \<and> c \<noteq> ''asin'' then Inr c else Inl (KeyError c))"

text \<open>
  The look-ups of the product master in the order of the script, on the cleaned labels:
  \<open>pm["asin"]\<close> in step 3; the brand manager and brand columns and the two indexed
  columns in step 4; the vendor SKU column and its indexed column in step 5; the cost
  column and its indexed column in step 6. The first exception ends the run. The labels
  are meant to be distinct, and the steps on the orders sheet to succeed.
\<close>

definition resolve_columns :: "string list \<Rightarrow> error + resolved" where
  "resolve_columns cols =
     (if ''asin'' \<notin> set cols then Inl (KeyError ''asin'')
      else
        and_then (bm_col cols) (\<lambda>bm.
        and_then (brand_col cols) (\<lambda>br.
        and_then (indexed_column cols bm) (\<lambda>_.
        and_then (indexed_column cols br) (\<lambda>_.
        and_then (vendor_col cols) (\<lambda>ve.
        and_then (indexed_column cols ve) (\<lambda>_.
        and_then (cp_col cols) (\<lambda>cp.
        and_then (indexed_column cols cp) (\<lambda>_.
          Inr \<lparr> r_bm = bm, r_brand = br, r_vendor = ve, r_cp = cp \<rparr>)))))))))"

subsection \<open>Sums of the aggregated columns\<close>

definition sum_quantity :: "('a working_scheme) list \<Rightarrow> rat" where
  "sum_quantity rs = sum_list (map (\<lambda>r. nan0 (quantity r)) rs)"

definition sum_item_price :: "('a working_scheme) list \<Rightarrow> rat" where
  "sum_item_price rs = sum_list (map (\<lambda>r. fillna0 (item_price r)) rs)"

definition sum_cost :: "enriched list \<Rightarrow> rat" where
  "sum_cost rs = sum_list (map cost rs)"

subsection \<open>Tabs 1 and 2: brand manager by date, brand by date\<close>

text \<open>
  \<open>pd.pivot_table(Working, index=key, columns="date", values=["quantity", "item-price"],
  aggfunc="sum", fill_value=0)\<close>. The pivot groups by the row key and the date with pandas'
  default \<open>dropna=True\<close>: a row whose key or date is blank belongs to no group. Row keys
  and dates come out sorted; a date column holds the pair (sum of quantity, sum of
  item-price), 0 where a key has no row on that date.
\<close>

record date_pivot =
  dp_dates :: "int list"
  dp_rows :: "(string \<times> (rat \<times> rat) list) list"

definition pivot_by_date :: "(enriched \<Rightarrow> string option) \<Rightarrow> enriched list \<Rightarrow> date_pivot" where
  "pivot_by_date key W =
     (let G = filter (\<lambda>r. key r \<noteq> None \<and> date r \<noteq> None) W;
          ks = sort (remdups (List.map_filter key G));
          ds = sort (remdups (List.map_filter date G))
      in \<lparr> dp_dates = ds,
           dp_rows =
             map (\<lambda>k. (k, map (\<lambda>d. (sum_quantity (filter (\<lambda>r. key r = Some k \<and> date r = Some d) G),
                                     sum_item_price (filter (\<lambda>r. key r = Some k \<and> date r = Some d) G)))
                             ds))
               ks \<rparr>)"

definition pivot_Brand_Manager :: "enriched list \<Rightarrow> date_pivot" where
  "pivot_Brand_Manager W = pivot_by_date brand_manager W"

definition pivot_Brand :: "enriched list \<Rightarrow> date_pivot" where
  "pivot_Brand W = pivot_by_date brand W"

text \<open>The \<open>Grand Total\<close> row: the sum of every column, appended below the pivot.\<close>

definition add_cells :: "(rat \<times> rat) list \<Rightarrow> (rat \<times> rat) list \<Rightarrow> (rat \<times> rat) list" where
  "add_cells xs ys = map (\<lambda>((a, b), (c, d)). (a + c, b + d)) (zip xs ys)"

definition column_sums :: "date_pivot \<Rightarrow> (rat \<times> rat) list" where
  "column_sums P =
     foldr add_cells (map snd (dp_rows P)) (replicate (length (dp_dates P)) (0, 0))"

definition with_total :: "date_pivot \<Rightarrow> date_pivot" where
  "with_total P = P \<lparr> dp_rows := dp_rows P @ [(''Grand Total'', column_sums P)] \<rparr>"

text \<open>The quantity a date pivot shows in its rows, all columns together.\<close>

definition pivot_quantity :: "date_pivot \<Rightarrow> rat" where
  "pivot_quantity P = sum_list (map (\<lambda>(k, cells). sum_list (map fst cells)) (dp_rows P))"

subsection \<open>Tab 3: brand and identifier\<close>

record c_row =
  c_asin :: string
  c_brand :: string
  c_quantity :: rat
  c_item_price :: rat
  c_cost :: rat

text \<open>The sums of one group of the pivot, and the \<open>Grand Total\<close> values of a pivot.\<close>

definition c_group :: "enriched list \<Rightarrow> string \<Rightarrow> string \<Rightarrow> c_row" where
  "c_group W a b =
     (let G = filter (\<lambda>r. asin r = a \<and> brand r = Some b) W
      in \<lparr> c_asin = a, c_brand = b, c_quantity = sum_quantity G,
           c_item_price = sum_item_price G, c_cost = sum_cost G \<rparr>)"

definition c_total :: "string \<Rightarrow> string \<Rightarrow> c_row list \<Rightarrow> c_row" where
  "c_total a b P =
     \<lparr> c_asin = a, c_brand = b, c_quantity = sum_list (map c_quantity P),
       c_item_price = sum_list (map c_item_price P), c_cost = sum_list (map c_cost P) \<rparr>"

text \<open>
  app2.py: \<open>pivot_table(index=["asin", "Brand"])\<close>, which drops rows with a blank brand and
  sorts by (asin, Brand), then \<open>sort_index(level=["Brand", "asin"])\<close>. The total row gets
  the index tuple \<open>("Grand Total", "")\<close> under the index names (asin, Brand).
\<close>

definition pivot_Brand_ASIN :: "enriched list \<Rightarrow> c_row list" where
  "pivot_Brand_ASIN W =
     (let ks = sort (remdups (List.map_filter (\<lambda>r. map_option (\<lambda>b. (asin r, b)) (brand r)) W));
          ks' = sort_key (\<lambda>(a, b). (b, a)) ks
      in map (\<lambda>(a, b). c_group W a b) ks')"

definition pivot_Brand_ASIN_with_total :: "enriched list \<Rightarrow> c_row list" where
  "pivot_Brand_ASIN_with_total W =
     pivot_Brand_ASIN W @ [c_total ''Grand Total'' [] (pivot_Brand_ASIN W)]"

text \<open>
  sales_06.py: \<open>pivot_table(index=["Brand", "asin"])\<close> and the same \<open>sort_index\<close>. The total
  row gets the same tuple \<open>("Grand Total", "")\<close>, here under the index names (Brand, asin).
\<close>

definition pivot_Brand_ASIN_06 :: "enriched list \<Rightarrow> c_row list" where
  "pivot_Brand_ASIN_06 W =
     (let ks = sort (remdups (List.map_filter (\<lambda>r. map_option (\<lambda>b. (b, asin r)) (brand r)) W));
          ks' = sort_key (\<lambda>(b, a). (b, a)) ks
      in map (\<lambda>(b, a). c_group W a b) ks')"

definition pivot_Brand_ASIN_with_total_06 :: "enriched list \<Rightarrow> c_row list" where
  "pivot_Brand_ASIN_with_total_06 W =
     pivot_Brand_ASIN_06 W @ [c_total [] ''Grand Total'' (pivot_Brand_ASIN_06 W)]"

subsection \<open>Tab 4 of app2.py: brand manager, brand and identifier with subtotals\<close>

text \<open>
  A row of \<open>combined\<close>. \<open>d_order\<close> is the column \<open>order\<close>: 0 for a base row, 1 for a brand
  subtotal, 2 for a manager subtotal, 3 for the grand total.
\<close>

record d_row =
  d_brand_manager :: "string option"
  d_brand :: "string option"
  d_asin :: string
  d_quantity :: rat
  d_item_price :: rat
  d_cost :: rat
  d_order :: nat

text \<open>pandas sorts blanks after every value (\<open>na_position='last'\<close>).\<close>

definition na_last :: "string option \<Rightarrow> bool \<times> string" where
  "na_last v = (case v of None \<Rightarrow> (True, []) | Some s \<Rightarrow> (False, s))"

text \<open>
  \<open>base\<close>: \<open>groupby(["asin", "Brand Manager", "Brand"], dropna=False).sum()\<close>, which keeps
  the groups with a blank key, then \<open>sort_values\<close> by brand manager, brand and quantity
  descending.
\<close>

definition base_row :: "enriched list \<Rightarrow> string \<times> string option \<times> string option \<Rightarrow> d_row" where
  "base_row W k =
     (case k of (a, m, b) \<Rightarrow>
        (let G = filter (\<lambda>r. asin r = a \<and> brand_manager r = m \<and> brand r = b) W
         in \<lparr> d_brand_manager = m, d_brand = b, d_asin = a,
              d_quantity = sum_quantity G, d_item_price = sum_item_price G,
              d_cost = sum_cost G, d_order = 0 \<rparr>))"

definition base :: "enriched list \<Rightarrow> d_row list" where
  "base W =
     (let ks = sort_key (\<lambda>(a, m, b). (a, na_last m, na_last b))
                 (remdups (map (\<lambda>r. (asin r, brand_manager r, brand r)) W))
      in sort_key (\<lambda>r. (na_last (d_brand_manager r), na_last (d_brand r), - d_quantity r))
           (map (base_row W) ks))"

text \<open>
  \<open>brand_totals\<close>: \<open>base.groupby(["Brand Manager", "Brand"], as_index=False).sum()\<close> with the
  default \<open>dropna=True\<close>, the identifier set to the brand followed by \<open>Total\<close>.
\<close>

definition both_keys :: "d_row \<Rightarrow> (string \<times> string) option" where
  "both_keys r =
     (case d_brand_manager r of None \<Rightarrow> None
      | Some m \<Rightarrow> (case d_brand r of None \<Rightarrow> None | Some b \<Rightarrow> Some (m, b)))"

definition brand_total_row :: "d_row list \<Rightarrow> string \<times> string \<Rightarrow> d_row" where
  "brand_total_row B k =
     (case k of (m, b) \<Rightarrow>
        (let G = filter (\<lambda>r. d_brand_manager r = Some m \<and> d_brand r = Some b) B
         in \<lparr> d_brand_manager = Some m, d_brand = Some b, d_asin = b @ '' Total'',
              d_quantity = sum_list (map d_quantity G),
              d_item_price = sum_list (map d_item_price G),
              d_cost = sum_list (map d_cost G), d_order = 1 \<rparr>))"

definition brand_totals :: "d_row list \<Rightarrow> d_row list" where
  "brand_totals B = map (brand_total_row B) (sort (remdups (List.map_filter both_keys B)))"

text \<open>\<open>manager_totals\<close>: one row for each brand manager, the brand set to the empty text.\<close>

definition manager_total_row :: "d_row list \<Rightarrow> string \<Rightarrow> d_row" where
  "manager_total_row B m =
     (let G = filter (\<lambda>r. d_brand_manager r = Some m) B
      in \<lparr> d_brand_manager = Some m, d_brand = Some [], d_asin = m @ '' Total'',
           d_quantity = sum_list (map d_quantity G),
           d_item_price = sum_list (map d_item_price G),
           d_cost = sum_list (map d_cost G), d_order = 2 \<rparr>)"

definition manager_totals :: "d_row list \<Rightarrow> d_row list" where
  "manager_totals B =
     map (manager_total_row B) (sort (remdups (List.map_filter d_brand_manager B)))"

definition grand_total :: "d_row list \<Rightarrow> d_row" where
  "grand_total B =
     \<lparr> d_brand_manager = Some [], d_brand = Some [], d_asin = ''Grand Total'',
       d_quantity = sum_list (map d_quantity B),
       d_item_price = sum_list (map d_item_price B),
       d_cost = sum_list (map d_cost B), d_order = 3 \<rparr>"

definition combined :: "enriched list \<Rightarrow> d_row list" where
  "combined W =
     base W @ brand_totals (base W) @ manager_totals (base W) @ [grand_total (base W)]"

text \<open>The flag \<open>is_grand\<close> and the final \<open>sort_values\<close>; quantity is the descending key.\<close>

definition is_grand :: "d_row \<Rightarrow> nat" where
  "is_grand r = (if d_asin r = ''Grand Total'' then 1 else 0)"

definition sort_keys :: "d_row \<Rightarrow> nat \<times> (bool \<times> string) \<times> (bool \<times> string) \<times> nat \<times> rat" where
  "sort_keys r =
     (is_grand r, na_last (d_brand_manager r), na_last (d_brand r), d_order r, - d_quantity r)"

definition view_D :: "enriched list \<Rightarrow> d_row list" where
  "view_D W = sort_key sort_keys (combined W)"

subsection \<open>Tab 4 of sales_06.py: brand manager, brand and identifier\<close>

text \<open>
  \<open>pivot_table(index=["Brand Manager", "Brand", "asin"])\<close>, which leaves out the rows with
  a blank brand manager or brand, then \<open>sort_values\<close> by brand manager, brand and quantity
  descending. There are no subtotal rows; \<open>d_order\<close> is 0 in every row.
\<close>

definition all_keys :: "enriched \<Rightarrow> (string \<times> string \<times> string) option" where
  "all_keys r =
     (case brand_manager r of None \<Rightarrow> None
      | Some m \<Rightarrow> (case brand r of None \<Rightarrow> None | Some b \<Rightarrow> Some (m, b, asin r)))"

definition pivot_BM_Brand_ASIN_sorted :: "enriched list \<Rightarrow> d_row list" where
  "pivot_BM_Brand_ASIN_sorted W =
     sort_key (\<lambda>r. (na_last (d_brand_manager r), na_last (d_brand r), - d_quantity r))
       (map (\<lambda>(m, b, a). base_row W (a, Some m, Some b))
          (sort (remdups (List.map_filter all_keys W))))"

subsection \<open>Key metrics, and what a run shows\<close>

text \<open>
  Both scripts compute the key metrics between the filter and the tabs:
  \<open>len(Working)\<close>, the sum of \<open>item-price\<close>, and the brand and the brand manager with the
  highest revenue, \<open>Working.groupby(key)['item-price'].sum().idxmax()\<close>. The groups are
  those of the rows with a key, sorted by key; \<open>idxmax\<close> gives the first label with the
  highest value and raises on an empty series.
\<close>

definition revenue_by :: "(enriched \<Rightarrow> string option) \<Rightarrow> enriched list \<Rightarrow> (string \<times> rat) list" where
  "revenue_by key W =
     map (\<lambda>k. (k, sum_item_price (filter (\<lambda>r. key r = Some k) W)))
       (sort (remdups (List.map_filter key W)))"

fun argmax_from :: "string \<times> rat \<Rightarrow> (string \<times> rat) list \<Rightarrow> string" where
  "argmax_from (k, v) [] = k"
| "argmax_from (k, v) ((k', v') # xs) =
     (if v < v' then argmax_from (k', v') xs else argmax_from (k, v) xs)"

definition idxmax :: "(string \<times> rat) list \<Rightarrow> error + string" where
  "idxmax xs = (case xs of [] \<Rightarrow> Inl ValueError | x # ys \<Rightarrow> Inr (argmax_from x ys))"

record metrics =
  total_orders :: nat
  total_revenue :: rat
  top_brand :: string
  top_manager :: string

definition key_metrics :: "enriched list \<Rightarrow> error + metrics" where
  "key_metrics W =
     and_then (idxmax (revenue_by brand W)) (\<lambda>tb.
     and_then (idxmax (revenue_by brand_manager W)) (\<lambda>tm.
       Inr \<lparr> total_orders = length W, total_revenue = sum_item_price W,
             top_brand = tb, top_manager = tm \<rparr>))"

text \<open>
  Everything a run shows comes after the key metrics: a table is shown when they have
  been computed, and otherwise the run has ended with their exception.
\<close>

definition shown :: "enriched list \<Rightarrow> 'a \<Rightarrow> error + 'a" where
  "shown W t = and_then (key_metrics W) (\<lambda>_. Inr t)"

definition tab1 :: "enriched list \<Rightarrow> error + date_pivot" where
  "tab1 W = shown W (with_total (pivot_Brand_Manager W))"

definition tab2 :: "enriched list \<Rightarrow> error + date_pivot" where
  "tab2 W = shown W (with_total (pivot_Brand W))"

definition tab3 :: "enriched list \<Rightarrow> error + c_row list" where
  "tab3 W = shown W (pivot_Brand_ASIN_with_total W)"

definition tab3_06 :: "enriched list \<Rightarrow> error + c_row list" where
  "tab3_06 W = shown W (pivot_Brand_ASIN_with_total_06 W)"

definition tab4 :: "enriched list \<Rightarrow> error + d_row list" where
  "tab4 W = shown W (view_D W)"

definition tab4_06 :: "enriched list \<Rightarrow> error + d_row list" where
  "tab4_06 W = shown W (pivot_BM_Brand_ASIN_sorted W)"

definition raw_data :: "enriched list \<Rightarrow> error + enriched list" where
  "raw_data W = shown W W"

subsection \<open>Sample sheets\<close>

text \<open>
  Rows of a product master: \<open>A1\<close>; a duplicate of it whose identifier has a no-break
  space before and a blank after, and the text \<open>N/A\<close> as cost; a product of the brand
  \<open>Grand\<close>; a product of the brand \<open>Solo\<close> without a brand manager. Orders: one for \<open>A1\<close>,
  one whose identifier is not in the product master, one with a blank identifier cell,
  one whose identifier is white space, one whose price is the text \<open>abc\<close>, one for \<open>G1\<close>,
  one for \<open>S1\<close>.
\<close>

definition pm_A1 :: pm_row where
  "pm_A1 = \<lparr> pm_asin = Some ''A1'', pm_brand_manager = Some ''Jo'', pm_brand = Some ''Acme'',
             pm_vendor_sku = Some ''V1'', pm_cp = Num 40 \<rparr>"

definition pm_A1_again :: pm_row where
  "pm_A1_again = \<lparr> pm_asin = Some (CHR 0xA0 # ''A1 ''), pm_brand_manager = Some ''Al'',
                   pm_brand = Some ''Bolt'', pm_vendor_sku = Some ''V2'', pm_cp = Str ''N/A'' \<rparr>"

definition pm_G1 :: pm_row where
  "pm_G1 = \<lparr> pm_asin = Some ''G1'', pm_brand_manager = Some ''Jo'', pm_brand = Some ''Grand'',
             pm_vendor_sku = Some ''V3'', pm_cp = Num 10 \<rparr>"

definition pm_S1 :: pm_row where
  "pm_S1 = \<lparr> pm_asin = Some ''S1'', pm_brand_manager = None, pm_brand = Some ''Solo'',
             pm_vendor_sku = Some ''V4'', pm_cp = Num 5 \<rparr>"

definition order_A1 :: order_row where
  "order_A1 = \<lparr> o_asin = Some ''A1'', o_quantity = Some 2, o_item_price = Num 100,
                o_product_name = Some ''Widget'', o_item_status = Some ''Shipped'',
                o_purchase_date = Some (19723, 0) \<rparr>"

definition order_ZZ :: order_row where
  "order_ZZ = \<lparr> o_asin = Some ''ZZ'', o_quantity = Some 3, o_item_price = Num 50,
                o_product_name = Some ''Gadget'', o_item_status = Some ''Shipped'',
                o_purchase_date = Some (19723, 60) \<rparr>"

definition order_blank :: order_row where
  "order_blank = \<lparr> o_asin = None, o_quantity = Some 1, o_item_price = Num 70,
                   o_product_name = Some ''Gizmo'', o_item_status = Some ''Shipped'',
                   o_purchase_date = Some (19724, 0) \<rparr>"

definition order_spaces :: order_row where
  "order_spaces = \<lparr> o_asin = Some [CHR 0x20, CHR 0xA0, CHR 0x09], o_quantity = Some 4,
                    o_item_price = Num 20, o_product_name = Some ''Gizmo'',
                    o_item_status = Some ''Shipped'', o_purchase_date = Some (19724, 0) \<rparr>"

definition order_S1 :: order_row where
  "order_S1 = \<lparr> o_asin = Some ''S1'', o_quantity = Some 6, o_item_price = Num 60,
                o_product_name = Some ''Widget'', o_item_status = Some ''Shipped'',
                o_purchase_date = Some (19723, 0) \<rparr>"

definition order_abc :: order_row where
  "order_abc = \<lparr> o_asin = Some ''A1'', o_quantity = Some 2, o_item_price = Str ''abc'',
                 o_product_name = Some ''Widget'', o_item_status = Some ''Shipped'',
                 o_purchase_date = Some (19723, 0) \<rparr>"

definition order_G1 :: order_row where
  "order_G1 = \<lparr> o_asin = Some ''G1'', o_quantity = Some 1, o_item_price = Num 30,
                o_product_name = Some ''Piano'', o_item_status = Some ''Shipped'',
                o_purchase_date = Some (19723, 0) \<rparr>"

section \<open>Properties\<close>

subsection \<open>Helper facts: strings and sample values\<close>

lemma strip_plain: "strip ''Widget'' = ''Widget''" "strip ''Gadget'' = ''Gadget''"
  "strip ''Gizmo'' = ''Gizmo''" "strip ''Piano'' = ''Piano''"
  by (simp_all add: strip_def is_space_def)

lemma strip_nan: "strip ''nan'' = ''nan''"
  by (simp add: strip_def is_space_def)

lemma read_abc: "read_decimal ''abc'' = None"
  by (simp add: read_decimal_def digit_value_def)

lemma normalize_A1: "normalize_id (Some ''A1'') = ''A1''"
  "normalize_id (Some (CHR 0xA0 # ''A1 '')) = ''A1''"
  by (simp_all add: normalize_id_def astype_str_def strip_def is_space_def)

lemma normalize_ZZ: "normalize_id (Some ''ZZ'') = ''ZZ''"
  by (simp add: normalize_id_def astype_str_def strip_def is_space_def)

subsection \<open>Helper facts: the filter\<close>

lemma to_numeric_ne0:
  "to_numeric parse c \<noteq> Num 0 \<longleftrightarrow>
     (c = NaN \<or> (\<exists>q. c = Num q \<and> q \<noteq> 0) \<or> (\<exists>s. c = Str s \<and> parse s \<noteq> Some 0))"
  by (cases c) (auto simp: to_numeric_def split: option.splits)

lemma to_numeric_not_text: "\<forall>s. c \<noteq> Str s \<Longrightarrow> to_numeric parse c = c"
  by (cases c) (auto simp: to_numeric_def)

lemma name_ok_iff: "name_ok n \<longleftrightarrow> (\<exists>s. n = Some s \<and> strip s \<noteq> [] \<and> strip s \<noteq> ''-'')"
  by (cases n) (auto simp: name_ok_def astype_str_def)

text \<open>The five statements of the step amount to one coercion and one row filter.\<close>

lemma filter_step_eq:
  "filter_step parse W =
     map (\<lambda>r. r\<lparr>item_price := to_numeric parse (item_price r)\<rparr>)
       (filter (\<lambda>r. quantity r \<noteq> Some 0 \<and> to_numeric parse (item_price r) \<noteq> Num 0 \<and>
                     name_ok (product_name r) \<and> item_status r \<noteq> Some ''Cancelled'') W)"
  by (induction W) (simp_all add: filter_step_def)

lemma filter_step_member:
  assumes "r \<in> set W" "quantity r \<noteq> Some 0" "to_numeric parse (item_price r) \<noteq> Num 0"
    "name_ok (product_name r)" "item_status r \<noteq> Some ''Cancelled''"
  shows "r\<lparr>item_price := to_numeric parse (item_price r)\<rparr> \<in> set (filter_step parse W)"
  unfolding filter_step_eq using assms by (auto simp: image_iff)

subsection \<open>Helper facts: deduplication, lookup maps and enrichment\<close>

lemma map_of_keep_first:
  "map_of (keep_first seen xs) k = (if k \<in> set seen then None else map_of xs k)"
proof (induction xs arbitrary: seen)
  case Nil
  show ?case by simp
next
  case (Cons p xs)
  obtain k' r where p: "p = (k', r)" by (cases p)
  show ?case unfolding p using Cons.IH[of seen] Cons.IH[of "k' # seen"] by auto
qed

lemma keys_keep_first: "fst ` set (keep_first seen xs) = fst ` set xs - set seen"
proof (induction xs arbitrary: seen)
  case Nil
  show ?case by simp
next
  case (Cons p xs)
  obtain k' r where p: "p = (k', r)" by (cases p)
  show ?case unfolding p by (auto simp: Cons.IH)
qed

lemma keep_first_later:
  "k \<in> set seen \<union> fst ` set as \<Longrightarrow>
     keep_first seen (as @ (k, r) # bs) = keep_first seen (as @ bs)"
proof (induction as arbitrary: seen)
  case Nil
  then show ?case by simp
next
  case (Cons p as)
  obtain k' r' where p: "p = (k', r')" by (cases p)
  from Cons.prems have "k \<in> set (k' # seen) \<union> fst ` set as"
      "k \<in> set seen \<union> fst ` set as \<or> k = k'"
    unfolding p by auto
  then show ?case unfolding p using Cons.IH[of "k' # seen"] Cons.IH[of seen]
    by (cases "k = k'") auto
qed

lemma map_of_indexed: "map_of (indexed col rows) k = map_option col (map_of rows k)"
  by (induction rows) (auto simp: indexed_def)

lemma keys_indexed: "fst ` set (indexed col rows) = fst ` set rows"
  by (force simp: indexed_def)

lemma clean_pm_append: "clean_pm (xs @ ys) = clean_pm xs @ clean_pm ys"
  by (simp add: clean_pm_def)

lemma clean_pm_Cons:
  "clean_pm (r # rs) =
     (if normalize_id (pm_asin r) \<noteq> [] \<and> normalize_id (pm_asin r) \<noteq> ''nan''
      then (normalize_id (pm_asin r), r) # clean_pm rs else clean_pm rs)"
  by (simp add: clean_pm_def)

lemma keys_clean_pm:
  "fst ` set (clean_pm pm) = {k \<in> normalize_id ` pm_asin ` set pm. k \<noteq> [] \<and> k \<noteq> ''nan''}"
  by (auto simp: clean_pm_def image_iff)

lemma keys_pm_unique:
  "fst ` set (pm_unique pm) = {k \<in> normalize_id ` pm_asin ` set pm. k \<noteq> [] \<and> k \<noteq> ''nan''}"
  by (simp add: pm_unique_def keys_keep_first keys_clean_pm)

lemma map_of_pm_unique_first:
  assumes "normalize_id (pm_asin r) = k" "k \<noteq> []" "k \<noteq> ''nan''"
    and "\<forall>x \<in> set xs. normalize_id (pm_asin x) \<noteq> k"
  shows "map_of (pm_unique (xs @ r # ys)) k = Some r"
proof -
  have "k \<notin> fst ` set (clean_pm xs)"
    using assms(4) by (auto simp: keys_clean_pm)
  then have "map_of (clean_pm xs) k = None"
    by (simp add: map_of_eq_None_iff)
  then show ?thesis
    using assms(1-3)
    by (simp add: pm_unique_def map_of_keep_first clean_pm_append clean_pm_Cons map_add_def)
qed

lemma pm_unique_later:
  assumes "normalize_id (pm_asin r) = k" "k \<noteq> []" "k \<noteq> ''nan''"
    and "normalize_id (pm_asin r') = k"
  shows "pm_unique (xs @ r # ys @ r' # zs) = pm_unique (xs @ r # ys @ zs)"
proof -
  have "clean_pm (xs @ r # ys @ r' # zs) =
          (clean_pm xs @ (k, r) # clean_pm ys) @ (k, r') # clean_pm zs"
    using assms by (simp add: clean_pm_append clean_pm_Cons)
  moreover have "clean_pm (xs @ r # ys @ zs) =
          (clean_pm xs @ (k, r) # clean_pm ys) @ clean_pm zs"
    using assms by (simp add: clean_pm_append clean_pm_Cons)
  moreover have "k \<in> set [] \<union> fst ` set (clean_pm xs @ (k, r) # clean_pm ys)"
    by simp
  ultimately show ?thesis
    unfolding pm_unique_def using keep_first_later by metis
qed

lemma map_text_absent: "k \<notin> fst ` set m \<Longrightarrow> map_text m k = None"
  using map_of_eq_None_iff[of m k] by (simp add: map_text_def)

lemma map_cell_absent: "k \<notin> fst ` set m \<Longrightarrow> map_cell m k = NaN"
  using map_of_eq_None_iff[of m k] by (simp add: map_cell_def)

lemma keys_maps:
  "fst ` set (bm_map pm) = fst ` set (pm_unique pm)"
  "fst ` set (brand_map pm) = fst ` set (pm_unique pm)"
  "fst ` set (vendor_map pm) = fst ` set (pm_unique pm)"
  "fst ` set (cp_map pm) = fst ` set (pm_unique pm)"
  by (simp_all add: bm_map_def brand_map_def vendor_map_def cp_map_def keys_indexed)

lemma enrich_unmatched:
  assumes "asin w \<notin> fst ` set (pm_unique pm)"
  shows "brand_manager (enrich parse pm w) = None" "brand (enrich parse pm w) = None"
    "vendor_sku (enrich parse pm w) = Some ''nan''" "cost (enrich parse pm w) = 0"
  using assms
  by (simp_all add: enrich_def map_text_absent map_cell_absent keys_maps astype_str_def
      to_numeric_def fillna0_def)

lemma enrich_working [simp]:
  "asin (enrich parse pm w) = asin w" "quantity (enrich parse pm w) = quantity w"
  "item_price (enrich parse pm w) = item_price w"
  "product_name (enrich parse pm w) = product_name w"
  "item_status (enrich parse pm w) = item_status w"
  by (simp_all add: enrich_def)

lemma clean_order_fields [simp]:
  "asin (clean_order ro) = normalize_id (o_asin ro)" "quantity (clean_order ro) = o_quantity ro"
  "item_price (clean_order ro) = o_item_price ro" "product_name (clean_order ro) = o_product_name ro"
  "item_status (clean_order ro) = o_item_status ro"
  by (simp_all add: clean_order_def)

lemma normalize_blank:
  assumes "v = None \<or> (\<exists>s. v = Some s \<and> strip s = [])"
  shows "normalize_id v = ''nan'' \<or> normalize_id v = []"
  using assms by (auto simp: normalize_id_def astype_str_def strip_nan)

lemma blank_not_key:
  assumes "k = ''nan'' \<or> k = []"
  shows "k \<notin> fst ` set (pm_unique pm)"
  using assms by (auto simp: keys_pm_unique)

lemma ZZ_unmatched: "asin (clean_order order_ZZ) \<notin> fst ` set (pm_unique [pm_A1])"
  by (simp add: keys_pm_unique clean_order_def order_ZZ_def pm_A1_def normalize_A1 normalize_ZZ)

text \<open>
  For an order whose identifier is no key of the lookup maps, brand manager and brand are
  blank and cost is 0, and the row passes the filter whenever quantity, price, product
  name and status pass.
\<close>

lemma unmatched_order_other_columns:
  assumes "asin w \<notin> fst ` set (pm_unique pm)"
  shows "brand_manager (enrich parse pm w) = None \<and> brand (enrich parse pm w) = None \<and>
         cost (enrich parse pm w) = 0 \<and>
         (\<forall>W. enrich parse pm w \<in> set W \<and> quantity w \<noteq> Some 0 \<and>
               to_numeric parse (item_price w) \<noteq> Num 0 \<and> name_ok (product_name w) \<and>
               item_status w \<noteq> Some ''Cancelled'' \<longrightarrow>
               (enrich parse pm w)\<lparr>item_price := to_numeric parse (item_price w)\<rparr>
                 \<in> set (filter_step parse W))"
  using enrich_unmatched[OF assms, of parse]
    filter_step_member[of "enrich parse pm w" _ parse]
  by simp

subsection \<open>Helper facts: sums, filters and sorted lists\<close>

lemma sum_list_insort_key:
  "sum_list (map f (insort_key k x xs)) = f x + sum_list (map f xs)"
  for f :: "'a \<Rightarrow> rat"
  by (induction xs) simp_all

lemma sum_list_sort_key:
  "sum_list (map f (sort_key k xs)) = sum_list (map f xs)"
  for f :: "'a \<Rightarrow> rat"
  by (induction xs) (simp_all add: sum_list_insort_key)

lemma filter_eq_distinct:
  "distinct xs \<Longrightarrow> filter (\<lambda>x. x = a) xs = (if a \<in> set xs then [a] else [])"
  by (induction xs) auto

lemma filter_none: "(\<And>x. x \<in> set xs \<Longrightarrow> \<not> P x) \<Longrightarrow> filter P xs = []"
  by (induction xs) auto

lemma set_map_filter: "set (List.map_filter f xs) = {y. \<exists>x \<in> set xs. f x = Some y}"
  by (induction xs) (auto split: option.splits)

lemma sum_list_skip:
  fixes c :: rat
  shows "a \<notin> set ks \<Longrightarrow> (\<Sum>k\<leftarrow>ks. (if k = a then c else 0) + h k) = (\<Sum>k\<leftarrow>ks. h k)"
  by (induction ks) auto

lemma sum_list_pick:
  fixes c :: rat
  assumes "distinct ks" "a \<in> set ks"
  shows "(\<Sum>k\<leftarrow>ks. (if k = a then c else 0) + h k) = c + (\<Sum>k\<leftarrow>ks. h k)"
  using assms by (induction ks) (auto simp: sum_list_skip)

text \<open>Summing group by group, over distinct keys that cover every row, is summing all rows.\<close>

lemma sum_list_by_key:
  fixes f :: "'a \<Rightarrow> rat"
  assumes "distinct ks" "\<forall>r \<in> set xs. \<exists>k \<in> set ks. g r = Some k"
  shows "(\<Sum>k\<leftarrow>ks. sum_list (map f (filter (\<lambda>r. g r = Some k) xs))) = sum_list (map f xs)"
  using assms(2)
proof (induction xs)
  case Nil
  show ?case by simp
next
  case (Cons x xs)
  from Cons.prems obtain a where a: "a \<in> set ks" "g x = Some a" by auto
  have "(\<Sum>k\<leftarrow>ks. sum_list (map f (filter (\<lambda>r. g r = Some k) (x # xs)))) =
        (\<Sum>k\<leftarrow>ks. (if k = a then f x else 0) + sum_list (map f (filter (\<lambda>r. g r = Some k) xs)))"
    by (rule arg_cong[where f = sum_list], rule map_cong) (auto simp: a)
  also have "\<dots> = f x + (\<Sum>k\<leftarrow>ks. sum_list (map f (filter (\<lambda>r. g r = Some k) xs)))"
    by (rule sum_list_pick[OF assms(1) a(1)])
  finally show ?case using Cons by simp
qed

text \<open>In a list sorted by a key, an element whose key is above every other is the last.\<close>

lemma last_of_sorted:
  assumes "sorted (map f ys)" "x \<in> set ys" "\<forall>y \<in> set ys. y = x \<or> f y < f x"
  shows "last ys = x"
proof (rule ccontr)
  assume ne: "last ys \<noteq> x"
  from assms(2) have nonempty: "ys \<noteq> []" by auto
  then have "last ys \<in> set ys" by simp
  with assms(3) ne have lt: "f (last ys) < f x" by auto
  from assms(2) obtain i where i: "i < length ys" "ys ! i = x"
    by (auto simp: in_set_conv_nth)
  have "f (ys ! i) \<le> f (ys ! (length ys - 1))"
    using assms(1) i(1) sorted_nth_mono[of "map f ys" i "length ys - 1"] by simp
  then have "f x \<le> f (last ys)"
    using i(2) nonempty by (simp add: last_conv_nth)
  with lt show False by simp
qed

subsection \<open>Helper facts: column resolution and what a run shows\<close>

lemma and_then_simps [simp]: "and_then (Inl e) f = Inl e" "and_then (Inr v) f = f v"
  by (simp_all add: and_then_def)

text \<open>A table that is shown is the table computed.\<close>

lemma shown_Inr: "shown W t = Inr V \<Longrightarrow> V = t"
  by (cases "key_metrics W") (simp_all add: shown_def)

lemma first_of_filter:
  "first_of (filter P xs) =
     (if \<exists>x \<in> set xs. P x then Inr (hd (filter P xs))
      else Inl (IndexError ''list index out of range''))"
  by (cases "filter P xs") (auto simp: first_of_def filter_empty_conv dest: filter_eq_ConsD)

lemma hd_filter:
  assumes "\<exists>x \<in> set xs. P x"
  shows "hd (filter P xs) \<in> set xs \<and> P (hd (filter P xs))"
proof -
  from assms have "filter P xs \<noteq> []" by (auto simp: filter_empty_conv)
  then have "hd (filter P xs) \<in> set (filter P xs)" by (rule hd_in_set)
  then show ?thesis by simp
qed

lemma bm_col_result:
  "bm_col cols =
     (if \<exists>c \<in> set cols. contains ''brand'' c \<and> contains ''manager'' c
      then Inr (hd (filter (\<lambda>c. contains ''brand'' c \<and> contains ''manager'' c) cols))
      else Inl (IndexError ''list index out of range''))"
  unfolding bm_col_def first_of_filter by simp

lemma brand_col_result:
  "brand_col cols =
     (if ''brand'' \<in> set cols then Inr ''brand''
      else Inl (IndexError ''list index out of range''))"
proof (cases "''brand'' \<in> set cols")
  case True
  then have "hd (filter (\<lambda>c. c = ''brand'') cols) = ''brand''"
    using hd_filter[of cols "\<lambda>c. c = ''brand''"] by auto
  with True show ?thesis unfolding brand_col_def first_of_filter by auto
next
  case False
  then show ?thesis unfolding brand_col_def first_of_filter by auto
qed

lemma vendor_col_result:
  "vendor_col cols =
     (if vendor_candidates cols \<noteq> [] then Inr (hd (vendor_candidates cols))
      else if 3 < length cols then Inr (cols ! 3)
      else Inl (IndexOutOfBounds 3 (length cols)))"
  by (cases "vendor_candidates cols") (simp_all add: vendor_col_def first_of_def column_at_def)

lemma cp_col_result:
  "cp_col cols =
     (if cp_candidates cols \<noteq> [] then Inr (hd (cp_candidates cols))
      else if 7 < length cols then Inr (cols ! 7)
      else Inl (IndexOutOfBounds 7 (length cols)))"
  by (cases "cp_candidates cols") (simp_all add: cp_col_def first_of_def column_at_def)

lemma asin_no_brand: "\<not> contains ''brand'' ''asin''"
  by code_simp

lemma indexed_bm:
  assumes "\<exists>c \<in> set cols. contains ''brand'' c \<and> contains ''manager'' c"
  shows "indexed_column cols (hd (filter (\<lambda>c. contains ''brand'' c \<and> contains ''manager'' c) cols)) =
           Inr (hd (filter (\<lambda>c. contains ''brand'' c \<and> contains ''manager'' c) cols))"
  using hd_filter[OF assms] asin_no_brand by (auto simp: indexed_column_def)

lemma indexed_brand: "''brand'' \<in> set cols \<Longrightarrow> indexed_column cols ''brand'' = Inr ''brand''"
  by (simp add: indexed_column_def)

lemma indexed_vendor:
  assumes "vendor_candidates cols \<noteq> []"
  shows "indexed_column cols (hd (vendor_candidates cols)) = Inr (hd (vendor_candidates cols))"
proof -
  from assms have "hd (vendor_candidates cols) \<in> set (vendor_candidates cols)"
    by (rule hd_in_set)
  then show ?thesis by (auto simp: vendor_candidates_def indexed_column_def)
qed

lemma indexed_cp:
  assumes "cp_candidates cols \<noteq> []"
  shows "indexed_column cols (hd (cp_candidates cols)) = Inr (hd (cp_candidates cols))"
proof -
  from assms have "hd (cp_candidates cols) \<in> set (cp_candidates cols)"
    by (rule hd_in_set)
  then show ?thesis by (auto simp: cp_candidates_def indexed_column_def)
qed

lemma indexed_asin: "indexed_column cols ''asin'' = Inl (KeyError ''asin'')"
  by (simp add: indexed_column_def)

lemma indexed_at:
  "i < length cols \<Longrightarrow> cols ! i \<noteq> ''asin'' \<Longrightarrow> indexed_column cols (cols ! i) = Inr (cols ! i)"
  by (simp add: indexed_column_def)

subsection \<open>Helper facts: the date pivots\<close>

text \<open>
  The rows of a date pivot hold the quantity of exactly the rows that have both a row key
  and a date.
\<close>

lemma pivot_by_date_quantity:
  "pivot_quantity (pivot_by_date key W) =
     sum_quantity (filter (\<lambda>r. key r \<noteq> None \<and> date r \<noteq> None) W)"
proof -
  let ?G = "filter (\<lambda>r. key r \<noteq> None \<and> date r \<noteq> None) W"
  let ?ks = "sort (remdups (List.map_filter key ?G))"
  let ?ds = "sort (remdups (List.map_filter date ?G))"
  let ?f = "\<lambda>r. nan0 (quantity r)"
  have inner: "(\<Sum>d\<leftarrow>?ds. sum_quantity (filter (\<lambda>r. key r = Some k \<and> date r = Some d) ?G)) =
                 sum_list (map ?f (filter (\<lambda>r. key r = Some k) ?G))" for k
  proof -
    have "(\<Sum>d\<leftarrow>?ds. sum_list (map ?f (filter (\<lambda>r. date r = Some d) (filter (\<lambda>r. key r = Some k) ?G)))) =
            sum_list (map ?f (filter (\<lambda>r. key r = Some k) ?G))"
      by (rule sum_list_by_key) (auto simp: set_map_filter)
    then show ?thesis
      by (simp add: sum_quantity_def conj_commute)
  qed
  have outer: "(\<Sum>k\<leftarrow>?ks. sum_list (map ?f (filter (\<lambda>r. key r = Some k) ?G))) = sum_list (map ?f ?G)"
    by (rule sum_list_by_key) (auto simp: set_map_filter)
  have "pivot_quantity (pivot_by_date key W) =
          (\<Sum>k\<leftarrow>?ks. \<Sum>d\<leftarrow>?ds. sum_quantity (filter (\<lambda>r. key r = Some k \<and> date r = Some d) ?G))"
    by (simp add: pivot_quantity_def pivot_by_date_def Let_def o_def)
  also have "\<dots> = sum_list (map ?f ?G)"
    unfolding inner outer ..
  finally show ?thesis by (simp add: sum_quantity_def)
qed

subsection \<open>Helper facts: tab 3\<close>

lemma c_group_keys [simp]: "c_asin (c_group W a b) = a" "c_brand (c_group W a b) = b"
  by (simp_all add: c_group_def Let_def)

lemma c_total_fields [simp]:
  "c_asin (c_total a b P) = a" "c_brand (c_total a b P) = b"
  "c_quantity (c_total a b P) = sum_list (map c_quantity P)"
  "c_item_price (c_total a b P) = sum_list (map c_item_price P)"
  "c_cost (c_total a b P) = sum_list (map c_cost P)"
  by (simp_all add: c_total_def)

lemma pivot_Brand_ASIN_keys:
  "map (\<lambda>r. (c_brand r, c_asin r)) (pivot_Brand_ASIN W) =
     map (\<lambda>(a, b). (b, a))
       (sort_key (\<lambda>(a, b). (b, a))
          (sort (remdups (List.map_filter (\<lambda>r. map_option (\<lambda>b. (asin r, b)) (brand r)) W))))"
  by (simp add: pivot_Brand_ASIN_def Let_def o_def case_prod_unfold)

lemma pivot_Brand_ASIN_sorted: "sorted (map (\<lambda>r. (c_brand r, c_asin r)) (pivot_Brand_ASIN W))"
  unfolding pivot_Brand_ASIN_keys by (rule sorted_sort_key)

lemma pivot_Brand_ASIN_06_keys:
  "map (\<lambda>r. (c_brand r, c_asin r)) (pivot_Brand_ASIN_06 W) =
     map (\<lambda>(b, a). (b, a))
       (sort_key (\<lambda>(b, a). (b, a))
          (sort (remdups (List.map_filter (\<lambda>r. map_option (\<lambda>b. (b, asin r)) (brand r)) W))))"
  by (simp add: pivot_Brand_ASIN_06_def Let_def o_def case_prod_unfold)

lemma pivot_Brand_ASIN_06_sorted:
  "sorted (map (\<lambda>r. (c_brand r, c_asin r)) (pivot_Brand_ASIN_06 W))"
  unfolding pivot_Brand_ASIN_06_keys by (rule sorted_sort_key)

lemma set_pivot_Brand_ASIN:
  "set (pivot_Brand_ASIN W) = {c_group W (asin r) b | r b. r \<in> set W \<and> brand r = Some b}"
  by (auto simp: pivot_Brand_ASIN_def Let_def set_map_filter image_iff)

lemma set_pivot_Brand_ASIN_06:
  "set (pivot_Brand_ASIN_06 W) = {c_group W (asin r) b | r b. r \<in> set W \<and> brand r = Some b}"
  by (auto simp: pivot_Brand_ASIN_06_def Let_def set_map_filter image_iff) force+

subsection \<open>Helper facts: tab 4\<close>

lemma base_row_fields [simp]:
  "d_brand_manager (base_row W (a, m, b)) = m" "d_brand (base_row W (a, m, b)) = b"
  "d_asin (base_row W (a, m, b)) = a" "d_order (base_row W (a, m, b)) = 0"
  by (simp_all add: base_row_def Let_def)

lemma brand_total_row_fields [simp]:
  "d_brand_manager (brand_total_row B (m, b)) = Some m"
  "d_brand (brand_total_row B (m, b)) = Some b"
  "d_asin (brand_total_row B (m, b)) = b @ '' Total''"
  "d_order (brand_total_row B (m, b)) = 1"
  "d_quantity (brand_total_row B (m, b)) =
     sum_list (map d_quantity (filter (\<lambda>r. d_brand_manager r = Some m \<and> d_brand r = Some b) B))"
  "d_item_price (brand_total_row B (m, b)) =
     sum_list (map d_item_price (filter (\<lambda>r. d_brand_manager r = Some m \<and> d_brand r = Some b) B))"
  "d_cost (brand_total_row B (m, b)) =
     sum_list (map d_cost (filter (\<lambda>r. d_brand_manager r = Some m \<and> d_brand r = Some b) B))"
  by (simp_all add: brand_total_row_def Let_def)

lemma manager_total_row_order [simp]: "d_order (manager_total_row B m) = 2"
  by (simp add: manager_total_row_def Let_def)

lemma grand_total_order [simp]: "d_order (grand_total B) = 3"
  by (simp add: grand_total_def)

lemma set_base:
  "set (base W) = base_row W ` (\<lambda>r. (asin r, brand_manager r, brand r)) ` set W"
  by (simp add: base_def)

lemma base_order: "r \<in> set (base W) \<Longrightarrow> d_order r = 0"
  by (auto simp: set_base)

lemma brand_totals_order: "r \<in> set (brand_totals B) \<Longrightarrow> d_order r = 1"
  by (auto simp: brand_totals_def)

lemma manager_totals_order: "r \<in> set (manager_totals B) \<Longrightarrow> d_order r = 2"
  by (auto simp: manager_totals_def)

lemma set_view_D: "set (view_D W) = set (combined W)"
  by (simp add: view_D_def)

lemma base_in_view_D:
  assumes "r \<in> set W"
  shows "base_row W (asin r, brand_manager r, brand r) \<in> set (view_D W)"
  using assms by (auto simp: set_view_D combined_def set_base)

lemma filter_base_rows:
  "filter (\<lambda>r. d_order r = 0 \<and> Q r) (combined W) = filter Q (base W)"
proof -
  have "filter (\<lambda>r. d_order r = 0 \<and> Q r) (base W) = filter Q (base W)"
    by (rule filter_cong) (auto dest: base_order)
  moreover have "filter (\<lambda>r. d_order r = 0 \<and> Q r) (brand_totals (base W)) = []"
    by (rule filter_none) (auto dest: brand_totals_order)
  moreover have "filter (\<lambda>r. d_order r = 0 \<and> Q r) (manager_totals (base W)) = []"
    by (rule filter_none) (auto dest: manager_totals_order)
  ultimately show ?thesis by (simp add: combined_def)
qed

lemma filter_brand_total_rows:
  "filter (\<lambda>r. d_order r = 1 \<and> Q r) (combined W) = filter Q (brand_totals (base W))"
proof -
  have "filter (\<lambda>r. d_order r = 1 \<and> Q r) (brand_totals (base W)) = filter Q (brand_totals (base W))"
    by (rule filter_cong) (auto dest: brand_totals_order)
  moreover have "filter (\<lambda>r. d_order r = 1 \<and> Q r) (base W) = []"
    by (rule filter_none) (auto dest: base_order)
  moreover have "filter (\<lambda>r. d_order r = 1 \<and> Q r) (manager_totals (base W)) = []"
    by (rule filter_none) (auto dest: manager_totals_order)
  ultimately show ?thesis by (simp add: combined_def)
qed

lemma both_keys_iff:
  "both_keys r = Some (m, b) \<longleftrightarrow> d_brand_manager r = Some m \<and> d_brand r = Some b"
  by (auto simp: both_keys_def split: option.splits)

lemma brand_totals_group:
  "filter (\<lambda>r. d_brand_manager r = Some m \<and> d_brand r = Some b) (brand_totals B) =
     (if \<exists>r \<in> set B. d_brand_manager r = Some m \<and> d_brand r = Some b
      then [brand_total_row B (m, b)] else [])"
proof -
  let ?ks = "sort (remdups (List.map_filter both_keys B))"
  have "filter (\<lambda>r. d_brand_manager r = Some m \<and> d_brand r = Some b) (brand_totals B) =
          map (brand_total_row B) (filter (\<lambda>k. k = (m, b)) ?ks)"
    unfolding brand_totals_def filter_map
    by (rule arg_cong[where f = "map (brand_total_row B)"], rule filter_cong) auto
  moreover have "distinct ?ks" by simp
  moreover have "(m, b) \<in> set ?ks \<longleftrightarrow>
       (\<exists>r \<in> set B. d_brand_manager r = Some m \<and> d_brand r = Some b)"
    by (auto simp: set_map_filter both_keys_iff)
  ultimately show ?thesis by (simp add: filter_eq_distinct)
qed

text \<open>
  For every brand manager \<open>m\<close> and brand \<open>b\<close> that some base row of tab 4 carries, there
  is exactly one brand subtotal row for \<open>(m, b)\<close>; its identifier slot is the brand
  followed by \<open>Total\<close>, and its quantity, revenue and cost are the sums of these columns
  over the base rows of \<open>(m, b)\<close>.
\<close>

lemma brand_subtotal:
  assumes "\<exists>r \<in> set (view_D W). d_order r = 0 \<and> d_brand_manager r = Some m \<and> d_brand r = Some b"
  shows "\<exists>t. filter (\<lambda>r. d_order r = 1 \<and> d_brand_manager r = Some m \<and> d_brand r = Some b)
                (view_D W) = [t] \<and>
             d_asin t = b @ '' Total'' \<and>
             d_quantity t =
               sum_list (map d_quantity
                 (filter (\<lambda>r. d_order r = 0 \<and> d_brand_manager r = Some m \<and> d_brand r = Some b)
                    (view_D W))) \<and>
             d_item_price t =
               sum_list (map d_item_price
                 (filter (\<lambda>r. d_order r = 0 \<and> d_brand_manager r = Some m \<and> d_brand r = Some b)
                    (view_D W))) \<and>
             d_cost t =
               sum_list (map d_cost
                 (filter (\<lambda>r. d_order r = 0 \<and> d_brand_manager r = Some m \<and> d_brand r = Some b)
                    (view_D W)))"
proof -
  let ?Q = "\<lambda>r. d_brand_manager r = Some m \<and> d_brand r = Some b"
  from assms have ex: "\<exists>r \<in> set (base W). ?Q r"
    by (auto simp: set_view_D combined_def dest: brand_totals_order manager_totals_order)
  have sub: "filter (\<lambda>r. d_order r = 1 \<and> ?Q r) (view_D W) = [brand_total_row (base W) (m, b)]"
    unfolding view_D_def filter_sort filter_brand_total_rows brand_totals_group
    using ex by simp
  have grp: "filter (\<lambda>r. d_order r = 0 \<and> ?Q r) (view_D W) =
               sort_key sort_keys (filter ?Q (base W))"
    unfolding view_D_def filter_sort filter_base_rows by simp
  show ?thesis
    unfolding sub grp by (simp add: sum_list_sort_key)
qed

text \<open>Tab 4 is sorted by the five keys.\<close>

lemma view_D_sorted: "sorted (map sort_keys (view_D W))"
  unfolding view_D_def by (rule sorted_sort_key)

text \<open>
  When no other row of tab 4 has the identifier \<open>Grand Total\<close>, the grand total is the last
  row.
\<close>

lemma grand_total_last:
  assumes "\<forall>r \<in> set (combined W). d_asin r = ''Grand Total'' \<longrightarrow> r = grand_total (base W)"
  shows "last (view_D W) = grand_total (base W)"
proof (rule last_of_sorted[where f = sort_keys])
  show "sorted (map sort_keys (view_D W))" by (rule view_D_sorted)
  show "grand_total (base W) \<in> set (view_D W)"
    by (simp add: set_view_D combined_def)
  show "\<forall>y \<in> set (view_D W). y = grand_total (base W) \<or> sort_keys y < sort_keys (grand_total (base W))"
    using assms by (auto simp: set_view_D sort_keys_def is_grand_def grand_total_def)
qed

text \<open>
  Cleaning removes rows with an empty or \<open>nan\<close> identifier from the product master only.
  An order whose identifier cell is blank, or holds white space only, stays in \<open>Working\<close>
  with the identifier text \<open>nan\<close> or the empty text; that text is no key of any lookup
  map, so brand manager and brand are blank and cost is 0; and when the order passes the
  filter it is a row of the processed orders and the key of a base row of tab 4 of
  app2.py, with blank brand manager and brand.
\<close>

lemma blank_identifier_order:
  assumes "o_asin ro = None \<or> (\<exists>s. o_asin ro = Some s \<and> strip s = [])" and "ro \<in> set orders"
  shows "length (enrich_orders parse pm orders) = length orders \<and>
         (asin (clean_order ro) = ''nan'' \<or> asin (clean_order ro) = []) \<and>
         asin (clean_order ro) \<notin> fst ` set (bm_map pm) \<and>
         asin (clean_order ro) \<notin> fst ` set (brand_map pm) \<and>
         asin (clean_order ro) \<notin> fst ` set (vendor_map pm) \<and>
         asin (clean_order ro) \<notin> fst ` set (cp_map pm) \<and>
         enrich parse pm (clean_order ro) \<in> set (enrich_orders parse pm orders) \<and>
         brand_manager (enrich parse pm (clean_order ro)) = None \<and>
         brand (enrich parse pm (clean_order ro)) = None \<and>
         cost (enrich parse pm (clean_order ro)) = 0 \<and>
         (o_quantity ro \<noteq> Some 0 \<and> to_numeric parse (o_item_price ro) \<noteq> Num 0 \<and>
          name_ok (o_product_name ro) \<and> o_item_status ro \<noteq> Some ''Cancelled'' \<longrightarrow>
            (enrich parse pm (clean_order ro))\<lparr>item_price := to_numeric parse (o_item_price ro)\<rparr>
               \<in> set (processed_orders parse pm orders) \<and>
            (\<exists>row \<in> set (view_D (processed_orders parse pm orders)).
               d_order row = 0 \<and> d_asin row = asin (clean_order ro) \<and>
               d_brand_manager row = None \<and> d_brand row = None))"
proof -
  let ?e = "enrich parse pm (clean_order ro)"
  let ?e' = "?e\<lparr>item_price := to_numeric parse (o_item_price ro)\<rparr>"
  let ?P = "processed_orders parse pm orders"
  have k: "asin (clean_order ro) = ''nan'' \<or> asin (clean_order ro) = []"
    using normalize_blank[OF assms(1)] by simp
  have nk: "asin (clean_order ro) \<notin> fst ` set (pm_unique pm)"
    using blank_not_key[OF k] .
  have mem: "?e \<in> set (enrich_orders parse pm orders)"
    using assms(2) by (auto simp: enrich_orders_def)
  have un: "brand_manager ?e = None" "brand ?e = None" "cost ?e = 0"
    using enrich_unmatched[OF nk, of parse] by simp_all
  have out: "?e' \<in> set ?P \<and>
      (\<exists>row \<in> set (view_D ?P). d_order row = 0 \<and> d_asin row = asin (clean_order ro) \<and>
         d_brand_manager row = None \<and> d_brand row = None)"
    if pass: "o_quantity ro \<noteq> Some 0 \<and> to_numeric parse (o_item_price ro) \<noteq> Num 0 \<and>
          name_ok (o_product_name ro) \<and> o_item_status ro \<noteq> Some ''Cancelled''"
  proof -
    have p: "?e' \<in> set ?P"
      unfolding processed_orders_def
      using filter_step_member[OF mem, of parse] pass by simp
    have "base_row ?P (asin ?e', brand_manager ?e', brand ?e') \<in> set (view_D ?P)"
      using base_in_view_D[OF p] .
    then have "base_row ?P (asin (clean_order ro), None, None) \<in> set (view_D ?P)"
      using un by simp
    then have "\<exists>row \<in> set (view_D ?P). d_order row = 0 \<and> d_asin row = asin (clean_order ro) \<and>
         d_brand_manager row = None \<and> d_brand row = None"
      by (rule rev_bexI) simp
    with p show ?thesis by blast
  qed
  have len: "length (enrich_orders parse pm orders) = length orders"
    by (simp add: enrich_orders_def)
  from len k nk mem un out show ?thesis
    unfolding keys_maps by blast
qed

subsection \<open>The filter keeps and removes rows (C1)\<close>

text \<open>
  C1 (as the scripts behave): the filter keeps a row if and only if its quantity is not 0,
  its unit price coerced to a number is not 0, its product name is present and its trimmed
  text is neither empty nor the single character \<open>-\<close>, and its status is not the exact text
  \<open>Cancelled\<close>. A price that cannot be coerced becomes NaN, and NaN is different from 0:
  such a row is kept, as is a row with a blank price; only a price that is the number 0,
  or text read as 0, removes the row. The rows kept carry the coerced price.
\<close>

theorem filter_retains:
  "filter_step parse W =
     map (\<lambda>r. r\<lparr>item_price := to_numeric parse (item_price r)\<rparr>)
       (filter (\<lambda>r. quantity r \<noteq> Some 0 \<and>
                     (item_price r = NaN \<or> (\<exists>q. item_price r = Num q \<and> q \<noteq> 0) \<or>
                      (\<exists>s. item_price r = Str s \<and> parse s \<noteq> Some 0)) \<and>
                     (\<exists>n. product_name r = Some n \<and> strip n \<noteq> [] \<and> strip n \<noteq> ''-'') \<and>
                     item_status r \<noteq> Some ''Cancelled'') W)"
  by (simp only: filter_step_eq to_numeric_ne0 name_ok_iff)

text \<open>
  Seven copies of the order for \<open>A1\<close>: unchanged, with quantity 0, with price 0, with the
  name \<open>-\<close> between blanks, with a name of a no-break space and a tab, cancelled, and with
  the status in lower case. The first and the last remain.
\<close>

theorem filter_retains_witness:
  "filter_step read_decimal
     [clean_order order_A1, clean_order (order_A1\<lparr>o_quantity := Some 0\<rparr>),
      clean_order (order_A1\<lparr>o_item_price := Num 0\<rparr>),
      clean_order (order_A1\<lparr>o_product_name := Some '' - ''\<rparr>),
      clean_order (order_A1\<lparr>o_product_name := Some [CHR 0xA0, CHR 0x09]\<rparr>),
      clean_order (order_A1\<lparr>o_item_status := Some ''Cancelled''\<rparr>),
      clean_order (order_A1\<lparr>o_item_status := Some ''cancelled''\<rparr>)] =
   [clean_order order_A1, clean_order (order_A1\<lparr>o_item_status := Some ''cancelled''\<rparr>)]"
  using filter_retains[of read_decimal
     "[clean_order order_A1, clean_order (order_A1\<lparr>o_quantity := Some 0\<rparr>),
      clean_order (order_A1\<lparr>o_item_price := Num 0\<rparr>),
      clean_order (order_A1\<lparr>o_product_name := Some '' - ''\<rparr>),
      clean_order (order_A1\<lparr>o_product_name := Some [CHR 0xA0, CHR 0x09]\<rparr>),
      clean_order (order_A1\<lparr>o_item_status := Some ''Cancelled''\<rparr>),
      clean_order (order_A1\<lparr>o_item_status := Some ''cancelled''\<rparr>)]"]
  by (simp add: clean_order_def order_A1_def to_numeric_def strip_plain strip_def is_space_def)

text \<open>
  Against C1 as stated: the price \<open>abc\<close> cannot be coerced, and the order is kept, with the
  price NaN.
\<close>

theorem filter_keeps_unreadable_price:
  "to_numeric read_decimal (o_item_price order_abc) = NaN \<and>
   filter_step read_decimal [clean_order order_abc] =
     [(clean_order order_abc)\<lparr>item_price := NaN\<rparr>]"
  by (simp add: filter_step_eq clean_order_def order_abc_def to_numeric_def read_abc
      name_ok_iff strip_plain)

subsection \<open>Quantity in the date pivots (C2)\<close>

text \<open>
  C2: the quantity of the filtered orders against the quantity shown in the rows of tab 1
  and tab 2. With one order for \<open>A1\<close> (quantity 2) and one order without a match in the
  product master (quantity 3), the filtered orders sum to 5, both pivots to 2, and the
  \<open>Grand Total\<close> row of tab 1 shows 2: the order with the blank brand manager and brand is
  in no row.
\<close>

theorem date_pivots_drop_unmatched:
  "sum_quantity (processed_orders read_decimal [pm_A1] [order_A1, order_ZZ]) = 5 \<and>
   pivot_quantity (pivot_Brand_Manager
     (processed_orders read_decimal [pm_A1] [order_A1, order_ZZ])) = 2 \<and>
   pivot_quantity (pivot_Brand
     (processed_orders read_decimal [pm_A1] [order_A1, order_ZZ])) = 2 \<and>
   with_total (pivot_Brand_Manager
     (processed_orders read_decimal [pm_A1] [order_A1, order_ZZ])) =
     \<lparr> dp_dates = [19723],
       dp_rows = [(''Jo'', [(2, 100)]), (''Grand Total'', [(2, 100)])] \<rparr>"
  by code_simp

subsection \<open>Columns that cannot be resolved (C3)\<close>

text \<open>
  C3 (as app2.py behaves): for a product master with distinct labels and an \<open>asin\<close>
  column, the run ends with an exception exactly when a required column is not resolved,
  and the exception is the one of the look-up that failed. Brand manager and brand are
  found by name only and have no fallback by position: without them it is the
  \<open>IndexError\<close> of an empty list. Vendor SKU and cost fall back to the 4th and 8th column:
  with too few columns it is the \<open>IndexError\<close> of the column index, and when the column at
  that position is the identifier column it is the \<open>KeyError\<close> for \<open>asin\<close> of the indexed
  look-up. No exception carries the name of the attribute or of the sheet. Otherwise
  all four columns are resolved.
\<close>

theorem column_resolution_failure:
  assumes "''asin'' \<in> set cols" and "distinct cols"
  shows
    "((\<not> (\<exists>c \<in> set cols. contains ''brand'' c \<and> contains ''manager'' c) \<or> ''brand'' \<notin> set cols)
        \<longrightarrow> resolve_columns cols = Inl (IndexError ''list index out of range'')) \<and>
     ((\<exists>c \<in> set cols. contains ''brand'' c \<and> contains ''manager'' c) \<and> ''brand'' \<in> set cols \<and>
      vendor_candidates cols = [] \<and> length cols \<le> 3
        \<longrightarrow> resolve_columns cols = Inl (IndexOutOfBounds 3 (length cols))) \<and>
     ((\<exists>c \<in> set cols. contains ''brand'' c \<and> contains ''manager'' c) \<and> ''brand'' \<in> set cols \<and>
      vendor_candidates cols = [] \<and> 3 < length cols \<and> cols ! 3 = ''asin''
        \<longrightarrow> resolve_columns cols = Inl (KeyError ''asin'')) \<and>
     ((\<exists>c \<in> set cols. contains ''brand'' c \<and> contains ''manager'' c) \<and> ''brand'' \<in> set cols \<and>
      (vendor_candidates cols \<noteq> [] \<or> 3 < length cols \<and> cols ! 3 \<noteq> ''asin'') \<and>
      cp_candidates cols = [] \<and> length cols \<le> 7
        \<longrightarrow> resolve_columns cols = Inl (IndexOutOfBounds 7 (length cols))) \<and>
     ((\<exists>c \<in> set cols. contains ''brand'' c \<and> contains ''manager'' c) \<and> ''brand'' \<in> set cols \<and>
      (vendor_candidates cols \<noteq> [] \<or> 3 < length cols \<and> cols ! 3 \<noteq> ''asin'') \<and>
      cp_candidates cols = [] \<and> 7 < length cols \<and> cols ! 7 = ''asin''
        \<longrightarrow> resolve_columns cols = Inl (KeyError ''asin'')) \<and>
     ((\<exists>c \<in> set cols. contains ''brand'' c \<and> contains ''manager'' c) \<and> ''brand'' \<in> set cols \<and>
      (vendor_candidates cols \<noteq> [] \<or> 3 < length cols \<and> cols ! 3 \<noteq> ''asin'') \<and>
      (cp_candidates cols \<noteq> [] \<or> 7 < length cols \<and> cols ! 7 \<noteq> ''asin'')
        \<longrightarrow> (\<exists>r. resolve_columns cols = Inr r))"
proof (cases "(\<exists>c \<in> set cols. contains ''brand'' c \<and> contains ''manager'' c) \<and> ''brand'' \<in> set cols")
  case False
  then show ?thesis
    using assms(1) by (auto simp: resolve_columns_def bm_col_result brand_col_result)
next
  case True
  then have A: "\<exists>c \<in> set cols. contains ''brand'' c \<and> contains ''manager'' c"
    and B: "''brand'' \<in> set cols" by auto
  let ?rest = "\<lambda>bm br.
        and_then (vendor_col cols) (\<lambda>ve.
        and_then (indexed_column cols ve) (\<lambda>_.
        and_then (cp_col cols) (\<lambda>cp.
        and_then (indexed_column cols cp) (\<lambda>_.
          Inr \<lparr> r_bm = bm, r_brand = br, r_vendor = ve, r_cp = cp \<rparr>))))"
  have step: "resolve_columns cols =
      ?rest (hd (filter (\<lambda>c. contains ''brand'' c \<and> contains ''manager'' c) cols)) ''brand''"
    using assms(1) A B
    by (simp add: resolve_columns_def bm_col_result brand_col_result indexed_bm indexed_brand)
  show ?thesis
    unfolding step vendor_col_result cp_col_result
    using A B
    by (auto simp: indexed_vendor indexed_cp indexed_at indexed_asin)
qed

theorem column_resolution_failure_witness:
  "''asin'' \<in> set (clean_columns [''Brand Manager'', ''Brand'', ''x'', '' ASIN'']) \<and>
   distinct (clean_columns [''Brand Manager'', ''Brand'', ''x'', '' ASIN'']) \<and>
   resolve_columns (clean_columns [''Brand Manager'', ''Brand'', ''x'', '' ASIN'']) =
     Inl (KeyError ''asin'') \<and>
   resolve_columns [''asin'', ''brand manager'', ''brand''] = Inl (IndexOutOfBounds 3 3)"
proof -
  have c: "clean_columns [''Brand Manager'', ''Brand'', ''x'', '' ASIN''] =
             [''brand manager'', ''brand'', ''x'', ''asin'']"
    by code_simp
  have h: "''asin'' \<in> set [''brand manager'', ''brand'', ''x'', ''asin'']"
    "distinct [''brand manager'', ''brand'', ''x'', ''asin'']" by simp_all
  have a: "\<exists>c \<in> set [''brand manager'', ''brand'', ''x'', ''asin''].
             contains ''brand'' c \<and> contains ''manager'' c"
    by code_simp
  have v: "vendor_candidates [''brand manager'', ''brand'', ''x'', ''asin''] = []"
    by code_simp
  have h': "''asin'' \<in> set [''asin'', ''brand manager'', ''brand'']"
    "distinct [''asin'', ''brand manager'', ''brand'']" by simp_all
  have a': "\<exists>c \<in> set [''asin'', ''brand manager'', ''brand''].
             contains ''brand'' c \<and> contains ''manager'' c"
    by code_simp
  have v': "vendor_candidates [''asin'', ''brand manager'', ''brand''] = []"
    by code_simp
  from column_resolution_failure[OF h] column_resolution_failure[OF h'] a v a' v' h
  show ?thesis
    unfolding c by simp
qed

text \<open>
  Against C3 as stated: a sheet without a brand manager column and a sheet without a
  brand column end with the same error, which names neither; sheets with too few columns
  end with an error that holds a position and a size.
\<close>

theorem missing_column_error_is_generic:
  "resolve_columns (clean_columns [''ASIN'', ''Brand'', ''Vendor SKU'', ''CP'']) =
     Inl (IndexError ''list index out of range'') \<and>
   resolve_columns (clean_columns [''ASIN'', ''Brand Manager'', ''Vendor SKU'', ''CP'']) =
     Inl (IndexError ''list index out of range'') \<and>
   resolve_columns (clean_columns [''ASIN'', ''Brand Manager'', ''Brand'']) =
     Inl (IndexOutOfBounds 3 3) \<and>
   resolve_columns (clean_columns [''ASIN'', ''Brand Manager'', ''Brand'', ''Vendor SKU'']) =
     Inl (IndexOutOfBounds 7 4)"
  by code_simp

subsection \<open>The filter and the values of the rows it keeps (C4)\<close>

text \<open>
  C4 (as the scripts behave): the filter removes rows, and a row that remains is the row
  before filtering with its unit price replaced by the coerced price; every other column,
  the looked-up ones included, is unchanged. A price that was blank or a number is
  unchanged too, so the whole row is; a price that was text becomes the number read from
  it, or NaN.
\<close>

theorem filter_frame:
  assumes "r' \<in> set (filter_step parse W)"
  shows "(\<exists>r \<in> set W. r' = r\<lparr>item_price := to_numeric parse (item_price r)\<rparr> \<and>
            ((\<forall>s. item_price r \<noteq> Str s) \<longrightarrow> r' = r)) \<and>
         length (filter_step parse W) \<le> length W"
proof -
  from assms obtain r where r: "r \<in> set W"
      "r' = r\<lparr>item_price := to_numeric parse (item_price r)\<rparr>"
    unfolding filter_step_eq by auto
  have "(\<forall>s. item_price r \<noteq> Str s) \<longrightarrow> r' = r"
    using r(2) by (simp add: to_numeric_not_text)
  with r show ?thesis
    unfolding filter_step_eq by auto
qed

theorem filter_frame_witness:
  "clean_order order_A1 \<in> set (filter_step read_decimal [clean_order order_A1]) \<and>
   (\<exists>r \<in> set [clean_order order_A1].
      clean_order order_A1 = r\<lparr>item_price := to_numeric read_decimal (item_price r)\<rparr> \<and>
      ((\<forall>s. item_price r \<noteq> Str s) \<longrightarrow> clean_order order_A1 = r))"
proof -
  have h: "clean_order order_A1 \<in> set (filter_step read_decimal [clean_order order_A1])"
    by (simp add: filter_step_eq clean_order_def order_A1_def to_numeric_def name_ok_iff
        strip_plain)
  from filter_frame[OF h] h show ?thesis by blast
qed

text \<open>
  Against C4 as stated: the order with the price \<open>abc\<close> remains, and its price is NaN after
  the filter.
\<close>

theorem filter_rewrites_text_price:
  "map item_price [clean_order order_abc] = [Str ''abc''] \<and>
   map item_price (filter_step read_decimal [clean_order order_abc]) = [NaN]"
  by (simp add: filter_step_eq clean_order_def order_abc_def to_numeric_def read_abc
      name_ok_iff strip_plain)

subsection \<open>Deduplication of the product master (C5)\<close>

text \<open>
  C5: when several rows of the product master have the same normalized identifier (not
  empty and not \<open>nan\<close>, which are removed before), each of the four lookup maps (brand
  manager, brand, vendor SKU, cost) maps the identifier to the value of the first of
  them, and a later row with that identifier changes none of the maps.
\<close>

theorem lookup_first_occurrence:
  assumes "normalize_id (pm_asin r) = k" and "k \<noteq> []" and "k \<noteq> ''nan''"
    and "\<forall>x \<in> set xs. normalize_id (pm_asin x) \<noteq> k"
  shows "map_of (bm_map (xs @ r # ys)) k = Some (pm_brand_manager r) \<and>
         map_of (brand_map (xs @ r # ys)) k = Some (pm_brand r) \<and>
         map_of (vendor_map (xs @ r # ys)) k = Some (pm_vendor_sku r) \<and>
         map_of (cp_map (xs @ r # ys)) k = Some (pm_cp r) \<and>
         (\<forall>r' zs. normalize_id (pm_asin r') = k \<longrightarrow>
            bm_map (xs @ r # ys @ r' # zs) = bm_map (xs @ r # ys @ zs) \<and>
            brand_map (xs @ r # ys @ r' # zs) = brand_map (xs @ r # ys @ zs) \<and>
            vendor_map (xs @ r # ys @ r' # zs) = vendor_map (xs @ r # ys @ zs) \<and>
            cp_map (xs @ r # ys @ r' # zs) = cp_map (xs @ r # ys @ zs))"
  using map_of_pm_unique_first[OF assms] pm_unique_later[OF assms(1-3)]
  by (simp add: bm_map_def brand_map_def vendor_map_def cp_map_def map_of_indexed)

theorem lookup_first_occurrence_witness:
  "map_of (bm_map ([] @ pm_A1 # [pm_G1, pm_A1_again])) ''A1'' = Some (pm_brand_manager pm_A1) \<and>
   map_of (cp_map ([] @ pm_A1 # [pm_G1, pm_A1_again])) ''A1'' = Some (Num 40) \<and>
   bm_map ([] @ pm_A1 # [pm_G1] @ pm_A1_again # []) = bm_map ([] @ pm_A1 # [pm_G1] @ [])"
proof -
  have h: "normalize_id (pm_asin pm_A1) = ''A1''" "''A1'' \<noteq> []" "''A1'' \<noteq> ''nan''"
    "\<forall>x \<in> set []. normalize_id (pm_asin x) \<noteq> ''A1''"
    by (simp_all add: pm_A1_def normalize_A1)
  have d: "normalize_id (pm_asin pm_A1_again) = ''A1''"
    by (simp add: pm_A1_again_def normalize_A1)
  have c: "pm_cp pm_A1 = Num 40" by (simp add: pm_A1_def)
  from lookup_first_occurrence[OF h, of "[pm_G1, pm_A1_again]"]
    lookup_first_occurrence[OF h, of "[pm_G1]"] d c
  show ?thesis by metis
qed

subsection \<open>Orders without a match in the product master (C6)\<close>

text \<open>
  C6: an order without a match in the lookup maps is to get a blank brand, brand manager
  and vendor SKU and cost 0, and to pass the filter. In app2.py the order for \<open>ZZ\<close>, which
  has no match, passes the filter with a blank brand and brand manager and cost 0, but
  its vendor SKU is the text \<open>nan\<close>: \<open>astype(str)\<close> on the mapped column turns the blank
  into text.
\<close>

theorem unmatched_vendor_is_text:
  "asin (clean_order order_ZZ) \<notin> fst ` set (pm_unique [pm_A1]) \<and>
   raw_data (processed_orders read_decimal [pm_A1] [order_A1, order_ZZ]) =
     Inr [\<lparr> asin = ''A1'', quantity = Some 2, item_price = Num 100,
            product_name = Some ''Widget'', item_status = Some ''Shipped'',
            purchase_date = Some (19723, 0), date = Some 19723,
            brand_manager = Some ''Jo'', brand = Some ''Acme'',
            vendor_sku = Some ''V1'', cost = 40 \<rparr>,
          \<lparr> asin = ''ZZ'', quantity = Some 3, item_price = Num 50,
            product_name = Some ''Gadget'', item_status = Some ''Shipped'',
            purchase_date = Some (19723, 60), date = Some 19723,
            brand_manager = None, brand = None,
            vendor_sku = Some ''nan'', cost = 0 \<rparr>]"
proof -
  have "raw_data (processed_orders read_decimal [pm_A1] [order_A1, order_ZZ]) =
     Inr [\<lparr> asin = ''A1'', quantity = Some 2, item_price = Num 100,
            product_name = Some ''Widget'', item_status = Some ''Shipped'',
            purchase_date = Some (19723, 0), date = Some 19723,
            brand_manager = Some ''Jo'', brand = Some ''Acme'',
            vendor_sku = Some ''V1'', cost = 40 \<rparr>,
          \<lparr> asin = ''ZZ'', quantity = Some 3, item_price = Num 50,
            product_name = Some ''Gadget'', item_status = Some ''Shipped'',
            purchase_date = Some (19723, 60), date = Some 19723,
            brand_manager = None, brand = None,
            vendor_sku = Some ''nan'', cost = 0 \<rparr>]"
    by code_simp
  with ZZ_unmatched show ?thesis by simp
qed

subsection \<open>The order of the rows of tab 4 (C7)\<close>

text \<open>
  C7: tab 4 is sorted by the flag \<open>is_grand\<close>, brand manager, brand, \<open>order\<close> and quantity
  descending, and the grand total is to be the last row. The flag is set for every row
  whose identifier slot is \<open>Grand Total\<close>. For a product of the brand \<open>Grand\<close> the brand
  subtotal has that identifier too; it sorts after the grand total, whose brand manager
  is the empty text, and the grand total is the third of four rows.
\<close>

theorem grand_total_not_last:
  "view_D (processed_orders read_decimal [pm_G1] [order_G1]) =
     [\<lparr> d_brand_manager = Some ''Jo'', d_brand = Some [], d_asin = ''Jo Total'',
        d_quantity = 1, d_item_price = 30, d_cost = 10, d_order = 2 \<rparr>,
      \<lparr> d_brand_manager = Some ''Jo'', d_brand = Some ''Grand'', d_asin = ''G1'',
        d_quantity = 1, d_item_price = 30, d_cost = 10, d_order = 0 \<rparr>,
      \<lparr> d_brand_manager = Some [], d_brand = Some [], d_asin = ''Grand Total'',
        d_quantity = 1, d_item_price = 30, d_cost = 10, d_order = 3 \<rparr>,
      \<lparr> d_brand_manager = Some ''Jo'', d_brand = Some ''Grand'', d_asin = ''Grand Total'',
        d_quantity = 1, d_item_price = 30, d_cost = 10, d_order = 1 \<rparr>]"
  by code_simp

subsection \<open>Brand subtotals of tab 4 (C8)\<close>

text \<open>
  C8: in tab 4 every group (brand manager, brand) of base rows is to have a brand
  subtotal row, labelled with the brand followed by \<open>Total\<close>, that holds the sums of the
  group. \<open>base\<close> keeps the groups with a blank key, \<open>brand_totals\<close> groups with the default
  of pandas and leaves them out: the product \<open>S1\<close> of the brand \<open>Solo\<close> has no brand
  manager, its base row (quantity 6) is in the tab, and there is no row \<open>Solo Total\<close>.
\<close>

theorem blank_manager_brand_has_no_subtotal:
  "tab4 (processed_orders read_decimal [pm_A1, pm_S1] [order_A1, order_S1]) =
     Inr [\<lparr> d_brand_manager = Some ''Jo'', d_brand = Some [], d_asin = ''Jo Total'',
            d_quantity = 2, d_item_price = 100, d_cost = 40, d_order = 2 \<rparr>,
          \<lparr> d_brand_manager = Some ''Jo'', d_brand = Some ''Acme'', d_asin = ''A1'',
            d_quantity = 2, d_item_price = 100, d_cost = 40, d_order = 0 \<rparr>,
          \<lparr> d_brand_manager = Some ''Jo'', d_brand = Some ''Acme'', d_asin = ''Acme Total'',
            d_quantity = 2, d_item_price = 100, d_cost = 40, d_order = 1 \<rparr>,
          \<lparr> d_brand_manager = None, d_brand = Some ''Solo'', d_asin = ''S1'',
            d_quantity = 6, d_item_price = 60, d_cost = 5, d_order = 0 \<rparr>,
          \<lparr> d_brand_manager = Some [], d_brand = Some [], d_asin = ''Grand Total'',
            d_quantity = 8, d_item_price = 160, d_cost = 45, d_order = 3 \<rparr>]"
  by code_simp

subsection \<open>Tab 3 and its total row (C9)\<close>

text \<open>
  C9 (as the scripts behave): whenever the run shows tab 3, its rows but the last are
  sorted by brand and then identifier, and the last row is one \<open>Grand Total\<close> row whose
  quantity, revenue and cost are the sums of these columns over the rows above it. The
  label is in the first slot of the index and the second slot is empty: in app2.py
  (index asin, Brand) the identifier slot holds \<open>Grand Total\<close> and the brand slot is
  empty, in sales_06.py (index Brand, asin) the brand slot holds \<open>Grand Total\<close> and the
  identifier slot is empty.
\<close>

theorem view_C_layout:
  assumes "tab3 W = Inr V" and "tab3_06 W = Inr V6"
  shows "V \<noteq> [] \<and>
         sorted (map (\<lambda>r. (c_brand r, c_asin r)) (butlast V)) \<and>
         c_asin (last V) = ''Grand Total'' \<and> c_brand (last V) = [] \<and>
         c_quantity (last V) = sum_list (map c_quantity (butlast V)) \<and>
         c_item_price (last V) = sum_list (map c_item_price (butlast V)) \<and>
         c_cost (last V) = sum_list (map c_cost (butlast V)) \<and>
         V6 \<noteq> [] \<and>
         sorted (map (\<lambda>r. (c_brand r, c_asin r)) (butlast V6)) \<and>
         c_brand (last V6) = ''Grand Total'' \<and> c_asin (last V6) = [] \<and>
         c_quantity (last V6) = sum_list (map c_quantity (butlast V6)) \<and>
         c_item_price (last V6) = sum_list (map c_item_price (butlast V6)) \<and>
         c_cost (last V6) = sum_list (map c_cost (butlast V6))"
proof -
  have V: "V = pivot_Brand_ASIN W @ [c_total ''Grand Total'' [] (pivot_Brand_ASIN W)]"
    using shown_Inr[OF assms(1)[unfolded tab3_def]]
    by (simp add: pivot_Brand_ASIN_with_total_def)
  have V6: "V6 = pivot_Brand_ASIN_06 W @ [c_total [] ''Grand Total'' (pivot_Brand_ASIN_06 W)]"
    using shown_Inr[OF assms(2)[unfolded tab3_06_def]]
    by (simp add: pivot_Brand_ASIN_with_total_06_def)
  show ?thesis
    unfolding V V6
    by (simp add: pivot_Brand_ASIN_sorted pivot_Brand_ASIN_06_sorted)
qed

theorem view_C_layout_witness:
  "tab3 (processed_orders read_decimal [pm_A1] [order_A1]) =
     Inr [\<lparr> c_asin = ''A1'', c_brand = ''Acme'', c_quantity = 2, c_item_price = 100,
            c_cost = 40 \<rparr>,
          \<lparr> c_asin = ''Grand Total'', c_brand = [], c_quantity = 2, c_item_price = 100,
            c_cost = 40 \<rparr>] \<and>
   tab3_06 (processed_orders read_decimal [pm_A1] [order_A1]) =
     Inr [\<lparr> c_asin = ''A1'', c_brand = ''Acme'', c_quantity = 2, c_item_price = 100,
            c_cost = 40 \<rparr>,
          \<lparr> c_asin = [], c_brand = ''Grand Total'', c_quantity = 2, c_item_price = 100,
            c_cost = 40 \<rparr>] \<and>
   c_quantity (last [\<lparr> c_asin = ''A1'', c_brand = ''Acme'', c_quantity = 2,
                       c_item_price = 100, c_cost = 40 \<rparr>,
                     \<lparr> c_asin = ''Grand Total'', c_brand = [], c_quantity = 2,
                       c_item_price = 100, c_cost = 40 \<rparr>]) =
     sum_list (map c_quantity (butlast
                    [\<lparr> c_asin = ''A1'', c_brand = ''Acme'', c_quantity = 2,
                       c_item_price = 100, c_cost = 40 \<rparr>,
                     \<lparr> c_asin = ''Grand Total'', c_brand = [], c_quantity = 2,
                       c_item_price = 100, c_cost = 40 \<rparr>]))"
proof -
  have h: "tab3 (processed_orders read_decimal [pm_A1] [order_A1]) =
     Inr [\<lparr> c_asin = ''A1'', c_brand = ''Acme'', c_quantity = 2, c_item_price = 100,
            c_cost = 40 \<rparr>,
          \<lparr> c_asin = ''Grand Total'', c_brand = [], c_quantity = 2, c_item_price = 100,
            c_cost = 40 \<rparr>]"
    by code_simp
  have h6: "tab3_06 (processed_orders read_decimal [pm_A1] [order_A1]) =
     Inr [\<lparr> c_asin = ''A1'', c_brand = ''Acme'', c_quantity = 2, c_item_price = 100,
            c_cost = 40 \<rparr>,
          \<lparr> c_asin = [], c_brand = ''Grand Total'', c_quantity = 2, c_item_price = 100,
            c_cost = 40 \<rparr>]"
    by code_simp
  from view_C_layout[OF h h6] h h6 show ?thesis by blast
qed

text \<open>
  Against C9 as stated: in sales_06.py the total row has \<open>Grand Total\<close> in the brand slot
  and an empty identifier slot; and for the filtered table of the one order for \<open>ZZ\<close>,
  which is not empty and has no row with a brand, the key metrics raise and neither
  script shows tab 3.
\<close>

theorem view_C_total_slots_06:
  "tab3_06 (processed_orders read_decimal [pm_A1] [order_A1]) =
     Inr [\<lparr> c_asin = ''A1'', c_brand = ''Acme'', c_quantity = 2, c_item_price = 100,
            c_cost = 40 \<rparr>,
          \<lparr> c_asin = [], c_brand = ''Grand Total'', c_quantity = 2, c_item_price = 100,
            c_cost = 40 \<rparr>] \<and>
   processed_orders read_decimal [pm_A1] [order_ZZ] \<noteq> [] \<and>
   tab3 (processed_orders read_decimal [pm_A1] [order_ZZ]) = Inl ValueError \<and>
   tab3_06 (processed_orders read_decimal [pm_A1] [order_ZZ]) = Inl ValueError"
  by code_simp

subsection \<open>Orders with a blank identifier (C10)\<close>

text \<open>
  C10: an order with a missing or blank identifier is kept by the cleaning, is no key of
  a lookup map, gets a blank brand and brand manager and cost 0, and is to appear in the
  outputs whenever it passes the filter. With an order for \<open>A1\<close>, an order with a blank
  identifier cell and an order whose identifier is white space, all three pass the filter
  and are in the processed orders, with the identifier texts \<open>nan\<close> and the empty text;
  tabs 1, 2 and 3 of both scripts and tab 4 of sales_06.py hold the order for \<open>A1\<close> only
  (quantity 2 of 7); in tab 4 of app2.py the two orders are base rows and count in the
  grand total. With the two blank orders alone the key metrics raise and the run shows
  nothing.
\<close>

theorem blank_identifier_order_missing_from_tabs:
  "raw_data (processed_orders read_decimal [pm_A1] [order_A1, order_blank, order_spaces]) =
     Inr [\<lparr> asin = ''A1'', quantity = Some 2, item_price = Num 100,
            product_name = Some ''Widget'', item_status = Some ''Shipped'',
            purchase_date = Some (19723, 0), date = Some 19723,
            brand_manager = Some ''Jo'', brand = Some ''Acme'',
            vendor_sku = Some ''V1'', cost = 40 \<rparr>,
          \<lparr> asin = ''nan'', quantity = Some 1, item_price = Num 70,
            product_name = Some ''Gizmo'', item_status = Some ''Shipped'',
            purchase_date = Some (19724, 0), date = Some 19724,
            brand_manager = None, brand = None,
            vendor_sku = Some ''nan'', cost = 0 \<rparr>,
          \<lparr> asin = [], quantity = Some 4, item_price = Num 20,
            product_name = Some ''Gizmo'', item_status = Some ''Shipped'',
            purchase_date = Some (19724, 0), date = Some 19724,
            brand_manager = None, brand = None,
            vendor_sku = Some ''nan'', cost = 0 \<rparr>] \<and>
   tab1 (processed_orders read_decimal [pm_A1] [order_A1, order_blank, order_spaces]) =
     Inr \<lparr> dp_dates = [19723],
           dp_rows = [(''Jo'', [(2, 100)]), (''Grand Total'', [(2, 100)])] \<rparr> \<and>
   tab2 (processed_orders read_decimal [pm_A1] [order_A1, order_blank, order_spaces]) =
     Inr \<lparr> dp_dates = [19723],
           dp_rows = [(''Acme'', [(2, 100)]), (''Grand Total'', [(2, 100)])] \<rparr> \<and>
   tab3 (processed_orders read_decimal [pm_A1] [order_A1, order_blank, order_spaces]) =
     Inr [\<lparr> c_asin = ''A1'', c_brand = ''Acme'', c_quantity = 2, c_item_price = 100,
            c_cost = 40 \<rparr>,
          \<lparr> c_asin = ''Grand Total'', c_brand = [], c_quantity = 2, c_item_price = 100,
            c_cost = 40 \<rparr>] \<and>
   tab3_06 (processed_orders read_decimal [pm_A1] [order_A1, order_blank, order_spaces]) =
     Inr [\<lparr> c_asin = ''A1'', c_brand = ''Acme'', c_quantity = 2, c_item_price = 100,
            c_cost = 40 \<rparr>,
          \<lparr> c_asin = [], c_brand = ''Grand Total'', c_quantity = 2, c_item_price = 100,
            c_cost = 40 \<rparr>] \<and>
   tab4 (processed_orders read_decimal [pm_A1] [order_A1, order_blank, order_spaces]) =
     Inr [\<lparr> d_brand_manager = Some ''Jo'', d_brand = Some [], d_asin = ''Jo Total'',
            d_quantity = 2, d_item_price = 100, d_cost = 40, d_order = 2 \<rparr>,
          \<lparr> d_brand_manager = Some ''Jo'', d_brand = Some ''Acme'', d_asin = ''A1'',
            d_quantity = 2, d_item_price = 100, d_cost = 40, d_order = 0 \<rparr>,
          \<lparr> d_brand_manager = Some ''Jo'', d_brand = Some ''Acme'', d_asin = ''Acme Total'',
            d_quantity = 2, d_item_price = 100, d_cost = 40, d_order = 1 \<rparr>,
          \<lparr> d_brand_manager = None, d_brand = None, d_asin = [],
            d_quantity = 4, d_item_price = 20, d_cost = 0, d_order = 0 \<rparr>,
          \<lparr> d_brand_manager = None, d_brand = None, d_asin = ''nan'',
            d_quantity = 1, d_item_price = 70, d_cost = 0, d_order = 0 \<rparr>,
          \<lparr> d_brand_manager = Some [], d_brand = Some [], d_asin = ''Grand Total'',
            d_quantity = 7, d_item_price = 190, d_cost = 40, d_order = 3 \<rparr>] \<and>
   tab4_06 (processed_orders read_decimal [pm_A1] [order_A1, order_blank, order_spaces]) =
     Inr [\<lparr> d_brand_manager = Some ''Jo'', d_brand = Some ''Acme'', d_asin = ''A1'',
            d_quantity = 2, d_item_price = 100, d_cost = 40, d_order = 0 \<rparr>] \<and>
   raw_data (processed_orders read_decimal [pm_A1] [order_blank, order_spaces]) =
     Inl ValueError"
  by code_simp

end
